theory Spec2Isabelle
  imports Main "HOL-Library.Word" "HOL-Library.Sublist"
begin

section \<open>EIP-7702 wallet upgrade and recovery demo\<close>

text \<open>
  A shallow embedding of the parts of the repository that compute commitments, classify the
  on-chain state of an upgraded account and drive its recovery. Pure functions of the
  source are HOL functions; the asynchronous handlers are programs over the calls they
  await, so that every statement about them holds for every behaviour of the chain, the
  relayer and the browser.
\<close>

subsection \<open>JavaScript strings\<close>

text \<open>\<^verbatim>\<open>Array.prototype.join\<close> on an array of strings.\<close>

fun join :: "string \<Rightarrow> string list \<Rightarrow> string" where
  "join sep [] = []"
| "join sep [x] = x"
| "join sep (x # y # ys) = x @ sep @ join sep (y # ys)"

subsection \<open>Bytes and hex strings\<close>

text \<open>
  viem's \<^verbatim>\<open>Hex\<close> values are strings \<^verbatim>\<open>0x...\<close> of lower-case hex digits, two per
  byte; reading accepts both cases. \<open>parseHex\<close> is \<^verbatim>\<open>hexToBytes\<close> of
  \<^verbatim>\<open>@noble/curves\<close>, which takes the digits without the prefix and refuses an odd
  number of them; \<open>hexString\<close> is \<^verbatim>\<open>Buffer.toString("hex")\<close>.
\<close>

type_synonym byte = "8 word"
type_synonym bytes = "byte list"

definition hexDigit :: "nat \<Rightarrow> char" where
  "hexDigit n = ''0123456789abcdef'' ! n"

definition digitVal :: "char \<Rightarrow> nat option" where
  "digitVal c =
     (let n = (of_char c :: nat) in
      if 48 \<le> n \<and> n \<le> 57 then Some (n - 48)
      else if 97 \<le> n \<and> n \<le> 102 then Some (n - 87)
      else if 65 \<le> n \<and> n \<le> 70 then Some (n - 55)
      else None)"

definition byteToHex :: "byte \<Rightarrow> string" where
  "byteToHex b = [hexDigit (unat b div 16), hexDigit (unat b mod 16)]"

definition hexString :: "bytes \<Rightarrow> string" where
  "hexString bs = concat (map byteToHex bs)"

definition bytesToHex :: "bytes \<Rightarrow> string" where
  "bytesToHex bs = ''0x'' @ hexString bs"

fun parseHex :: "string \<Rightarrow> bytes option" where
  "parseHex [] = Some []"
| "parseHex [c] = None"
| "parseHex (c # d # cs) =
     (case (digitVal c, digitVal d, parseHex cs) of
        (Some h, Some l, Some bs) \<Rightarrow> Some (of_nat (16 * h + l) # bs)
      | _ \<Rightarrow> None)"

definition hexToBytes :: "string \<Rightarrow> bytes option" where
  "hexToBytes s = (if take 2 s = ''0x'' then parseHex (drop 2 s) else None)"

definition ascii :: "string \<Rightarrow> bytes" where
  "ascii s = map of_char s"

primrec be_bytes :: "nat \<Rightarrow> nat \<Rightarrow> bytes" where
  "be_bytes 0 n = []"
| "be_bytes (Suc k) n = be_bytes k (n div 256) @ [of_nat n]"

definition uint256_be :: "nat \<Rightarrow> bytes" where
  "uint256_be n = be_bytes 32 n"

primrec hex_digits :: "nat \<Rightarrow> nat \<Rightarrow> string" where
  "hex_digits 0 n = []"
| "hex_digits (Suc k) n = hex_digits k (n div 16) @ [hexDigit (n mod 16)]"

datatype abi_type = T_address | T_uint256 | T_bytes32 | T_bytes | T_bytes_array

datatype abi_arg = Hex string | Big int | HexArray "string list"

type_synonym prepared = "bool \<times> bytes"

definition encodeBytes :: "bytes \<Rightarrow> bytes" where
  "encodeBytes b = uint256_be (length b) @ b @ replicate ((32 - length b mod 32) mod 32) 0"

definition staticSize :: "prepared list \<Rightarrow> nat" where
  "staticSize ps = sum_list (map (\<lambda>(dynamic, encoded). if dynamic then 32 else length encoded) ps)"

fun encodeParts :: "nat \<Rightarrow> prepared list \<Rightarrow> bytes \<times> bytes" where
  "encodeParts off [] = ([], [])"
| "encodeParts off ((dynamic, encoded) # ps) =
     (if dynamic
      then (case encodeParts (off + length encoded) ps of
              (st, dy) \<Rightarrow> (uint256_be off @ st, encoded @ dy))
      else (case encodeParts off ps of (st, dy) \<Rightarrow> (encoded @ st, dy)))"

definition encodeParams :: "prepared list \<Rightarrow> bytes" where
  "encodeParams ps = (case encodeParts (staticSize ps) ps of (st, dy) \<Rightarrow> st @ dy)"

fun traverse :: "('a \<Rightarrow> string + 'b) \<Rightarrow> 'a list \<Rightarrow> string + 'b list" where
  "traverse f [] = Inr []"
| "traverse f (x # xs) =
     (case f x of
        Inl e \<Rightarrow> Inl e
      | Inr y \<Rightarrow> (case traverse f xs of Inl e \<Rightarrow> Inl e | Inr ys \<Rightarrow> Inr (y # ys)))"

definition prepareBytes :: "string \<Rightarrow> string + prepared" where
  "prepareBytes h =
     (case hexToBytes h of
        None \<Rightarrow> Inl ''InvalidHexValueError''
      | Some b \<Rightarrow> Inr (True, encodeBytes b))"

fun prepareParam :: "abi_type \<times> abi_arg \<Rightarrow> string + prepared" where
  "prepareParam (T_address, Hex h) =
     (case hexToBytes h of
        Some a \<Rightarrow> if length a = 20 then Inr (False, replicate 12 0 @ a)
                  else Inl ''InvalidAddressError''
      | None \<Rightarrow> Inl ''InvalidAddressError'')"
| "prepareParam (T_uint256, Big n) =
     (if 0 \<le> n \<and> n < 2 ^ 256 then Inr (False, uint256_be (nat n))
      else Inl ''IntegerOutOfRangeError'')"
| "prepareParam (T_bytes32, Hex h) =
     (case hexToBytes h of
        Some b \<Rightarrow> if length b = 32 then Inr (False, b)
                  else Inl ''AbiEncodingBytesSizeMismatchError''
      | None \<Rightarrow> Inl ''InvalidHexValueError'')"
| "prepareParam (T_bytes, Hex h) = prepareBytes h"
| "prepareParam (T_bytes_array, HexArray hs) =
     (case traverse prepareBytes hs of
        Inl e \<Rightarrow> Inl e
      | Inr ps \<Rightarrow> Inr (True, uint256_be (length ps) @ encodeParams ps))"
| "prepareParam (t, v) = Inl ''InvalidAbiEncodingTypeError''"

definition encodeAbiParameters :: "abi_type list \<Rightarrow> abi_arg list \<Rightarrow> string + string" where
  "encodeAbiParameters params vals =
     (if length params \<noteq> length vals then Inl ''AbiEncodingLengthMismatchError''
      else case traverse prepareParam (zip params vals) of
             Inl e \<Rightarrow> Inl e
           | Inr ps \<Rightarrow> Inr (bytesToHex (encodeParams ps)))"

definition keccak256 :: "(bytes \<Rightarrow> bytes) \<Rightarrow> string \<Rightarrow> string + string" where
  "keccak256 K h =
     (case hexToBytes h of
        None \<Rightarrow> Inl ''InvalidHexValueError''
      | Some b \<Rightarrow> Inr (bytesToHex (K b)))"

definition encodeInitializeArgs :: "string \<Rightarrow> string + string" where
  "encodeInitializeArgs ownerAddress =
     (let owners = [ownerAddress] in
      case traverse (\<lambda>owner. encodeAbiParameters [T_address] [Hex owner]) owners of
        Inl e \<Rightarrow> Inl e
      | Inr encodedOwners \<Rightarrow> encodeAbiParameters [T_bytes_array] [HexArray encodedOwners])"

definition createInitializeHash :: "(bytes \<Rightarrow> bytes) \<Rightarrow> string \<Rightarrow> string \<Rightarrow> string + string" where
  "createInitializeHash K proxyAddress initArgs =
     (case encodeAbiParameters [T_address, T_bytes] [Hex proxyAddress, Hex initArgs] of
        Inl e \<Rightarrow> Inl e
      | Inr abiEncoded \<Rightarrow> keccak256 K abiEncoded)"

definition noble_hexToBytes :: "string \<Rightarrow> string + bytes" where
  "noble_hexToBytes s = (case parseHex s of None \<Rightarrow> Inl ''Error: invalid hex'' | Some b \<Rightarrow> Inr b)"

definition script_encodeInitializeArgs :: "string \<Rightarrow> string + string" where
  "script_encodeInitializeArgs ownerAddress =
     (case encodeAbiParameters [T_address] [Hex ownerAddress] of
        Inl e \<Rightarrow> Inl e
      | Inr encodedOwner \<Rightarrow>
          (let owners = [encodedOwner] in
           encodeAbiParameters [T_bytes_array] [HexArray owners]))"

definition script_createInitializeHash :: "(bytes \<Rightarrow> bytes) \<Rightarrow> string \<Rightarrow> string \<Rightarrow> string + string" where
  "script_createInitializeHash K proxyAddr initArgs =
     (case encodeAbiParameters [T_address, T_bytes] [Hex proxyAddr, Hex initArgs] of
        Inl e \<Rightarrow> Inl e
      | Inr abiEncoded \<Rightarrow>
          (case noble_hexToBytes (drop 2 abiEncoded) of
             Inl e \<Rightarrow> Inl e
           | Inr abiEncodedBytes \<Rightarrow>
               (let hashBytes = K abiEncodedBytes in
                Inr (''0x'' @ hexString hashBytes))))"


subsection \<open>JavaScript values\<close>

text \<open>
  The values \<^verbatim>\<open>JSON.parse\<close> can produce, with \<^verbatim>\<open>undefined\<close> for what a property
  read gives on a missing key. Numbers are IEEE doubles; nothing here computes with them,
  so their type is left abstract.
\<close>

typedecl js_number

datatype jsval =
    JUndefined
  | JNull
  | JBool bool
  | JNum js_number
  | JStr string
  | JArr "jsval list"
  | JObj "(string \<times> jsval) list"

text \<open>
  What the model takes from the JavaScript runtime and from viem without computing it:
  the printing of a number, \<^verbatim>\<open>BigInt(v)\<close> (which throws on a value that is no
  integer), the message of the TypeError raised by a property read on \<^verbatim>\<open>null\<close> or
  \<^verbatim>\<open>undefined\<close>, and viem's \<^verbatim>\<open>encodeFunctionData\<close> (which throws on arguments
  that do not fit the ABI).
\<close>

datatype call_arg = ArgJs jsval | ArgStr string | ArgBig int | ArgBool bool

record runtime =
  numberToString :: "js_number \<Rightarrow> string"
  BigInt :: "jsval \<Rightarrow> string + int"
  typeError :: "string \<Rightarrow> string"
  encodeFunctionData :: "string \<Rightarrow> call_arg list \<Rightarrow> string + string"

text \<open>
  Reading property \<open>k\<close> of a value, as \<^verbatim>\<open>v.k\<close> and as the destructuring
  \<^verbatim>\<open>const { k } = v\<close> do: a TypeError on \<^verbatim>\<open>null\<close> and \<^verbatim>\<open>undefined\<close>, the
  last binding of \<open>k\<close> in an object, and \<^verbatim>\<open>undefined\<close> otherwise (none of the
  names read in this repository is a built-in property of a string, a number or an array).
\<close>

fun get_prop :: "runtime \<Rightarrow> jsval \<Rightarrow> string \<Rightarrow> string + jsval" where
  "get_prop rt JUndefined k = Inl (typeError rt k)"
| "get_prop rt JNull k = Inl (typeError rt k)"
| "get_prop rt (JObj kvs) k = Inr (case map_of (rev kvs) k of None \<Rightarrow> JUndefined | Some v \<Rightarrow> v)"
| "get_prop rt v k = Inr JUndefined"


subsection \<open>Asynchronous handlers as programs\<close>

text \<open>
  An \<^verbatim>\<open>async\<close> function is a program that finishes with a value, throws, performs a
  local action (a React state update, a callback of the parent, a log line) or awaits a
  call to a collaborator and goes on with what the promise settles to. A thrown value is
  an \<^verbatim>\<open>Error\<close>, represented by its message.
\<close>

datatype 'r settled = Resolved 'r | Rejected string

datatype ('u, 'c, 'r, 'a) prog =
    Return 'a
  | Throw string
  | Act 'u "('u, 'c, 'r, 'a) prog"
  | Await 'c "'r settled \<Rightarrow> ('u, 'c, 'r, 'a) prog"

text \<open>\<^verbatim>\<open>await call\<close>: a rejected promise throws at the \<^verbatim>\<open>await\<close>.\<close>

definition await :: "'c \<Rightarrow> ('r \<Rightarrow> ('u, 'c, 'r, 'a) prog) \<Rightarrow> ('u, 'c, 'r, 'a) prog" where
  "await c k = Await c (\<lambda>r. case r of Resolved v \<Rightarrow> k v | Rejected e \<Rightarrow> Throw e)"

text \<open>A synchronous operation that may throw.\<close>

definition attempt :: "string + 'b \<Rightarrow> ('b \<Rightarrow> ('u, 'c, 'r, 'a) prog) \<Rightarrow> ('u, 'c, 'r, 'a) prog" where
  "attempt x k = (case x of Inl e \<Rightarrow> Throw e | Inr v \<Rightarrow> k v)"

text \<open>Sequencing, \<^verbatim>\<open>try { p } catch (e) { h e }\<close> and \<^verbatim>\<open>try { p } finally { f }\<close>.\<close>

primrec bind :: "('u, 'c, 'r, 'a) prog \<Rightarrow> ('a \<Rightarrow> ('u, 'c, 'r, 'b) prog) \<Rightarrow> ('u, 'c, 'r, 'b) prog" where
  "bind (Return a) f = f a"
| "bind (Throw e) f = Throw e"
| "bind (Act u p) f = Act u (bind p f)"
| "bind (Await c k) f = Await c (\<lambda>r. bind (k r) f)"

primrec try_catch ::
  "('u, 'c, 'r, 'a) prog \<Rightarrow> (string \<Rightarrow> ('u, 'c, 'r, 'a) prog) \<Rightarrow> ('u, 'c, 'r, 'a) prog" where
  "try_catch (Return a) h = Return a"
| "try_catch (Throw e) h = h e"
| "try_catch (Act u p) h = Act u (try_catch p h)"
| "try_catch (Await c k) h = Await c (\<lambda>r. try_catch (k r) h)"

primrec try_finally :: "('u, 'c, 'r, 'a) prog \<Rightarrow> 'u list \<Rightarrow> ('u, 'c, 'r, 'a) prog" where
  "try_finally (Return a) f = foldr Act f (Return a)"
| "try_finally (Throw e) f = foldr Act f (Throw e)"
| "try_finally (Act u p) f = Act u (try_finally p f)"
| "try_finally (Await c k) f = Await c (\<lambda>r. try_finally (k r) f)"

text \<open>
  A run of a program against its collaborators: the list gives, in order, what each
  awaited call settles to; a call with no entry left never settles. The run yields the
  events in the order they happen and how the handler ended. Every call is in the trace
  from the moment it is issued, settled or not.
\<close>

datatype ('u, 'c, 'r) event = Did 'u | Awaited 'c "'r settled option"

datatype 'a outcome = Finished 'a | Threw string | Pending

primrec run ::
  "('u, 'c, 'r, 'a) prog \<Rightarrow> 'r settled list \<Rightarrow> ('u, 'c, 'r) event list \<times> 'a outcome" where
  "run (Return a) rs = ([], Finished a)"
| "run (Throw e) rs = ([], Threw e)"
| "run (Act u p) rs = (case run p rs of (t, out) \<Rightarrow> (Did u # t, out))"
| "run (Await c k) rs =
     (case rs of
        [] \<Rightarrow> ([Awaited c None], Pending)
      | r # rs' \<Rightarrow> (case run (k r) rs' of (t, out) \<Rightarrow> (Awaited c (Some r) # t, out)))"

definition calls :: "('u, 'c, 'r) event list \<Rightarrow> 'c list" where
  "calls t = concat (map (\<lambda>e. case e of Did u \<Rightarrow> [] | Awaited c r \<Rightarrow> [c]) t)"


text \<open>
  A property of every run, computed along the program: \<open>P\<close> must hold of the trace and
  the outcome wherever the run can stop, whatever each awaited call settles to.
\<close>

primrec all_runs ::
  "(('u, 'c, 'r) event list \<Rightarrow> 'a outcome \<Rightarrow> bool) \<Rightarrow> ('u, 'c, 'r, 'a) prog \<Rightarrow> bool" where
  "all_runs P (Return a) = P [] (Finished a)"
| "all_runs P (Throw e) = P [] (Threw e)"
| "all_runs P (Act u p) = all_runs (\<lambda>t. P (Did u # t)) p"
| "all_runs P (Await c k) =
     (P [Awaited c None] Pending \<and> (\<forall>r. all_runs (\<lambda>t. P (Awaited c (Some r) # t)) (k r)))"

subsection \<open>The relay endpoint (app/api/relay/route.ts)\<close>

text \<open>
  The two constants the endpoint imports from \<^verbatim>\<open>lib/contracts\<close> are parameters of
  the model.
\<close>

record contracts =
  NEW_IMPLEMENTATION_ADDRESS :: string
  VALIDATOR_ADDRESS :: string

record tx_request =
  to :: jsval
  "value" :: "int option"
  data :: "string option"
  authorizationList :: jsval







text \<open>One runtime and one set of constants, to run the models on concrete inputs.\<close>

definition a_runtime :: runtime where
  "a_runtime = \<lparr>numberToString = (\<lambda>n. ''NaN''),
                 BigInt = (\<lambda>v. if v = JStr ''1'' then Inr 1 else Inl ''Cannot convert to a BigInt''),
                 typeError = (\<lambda>k. ''Cannot read properties of undefined (reading '' @ k @ '')''),
                 encodeFunctionData = (\<lambda>f args. Inr ''0x'')\<rparr>"

definition a_contracts :: contracts where
  "a_contracts = \<lparr>NEW_IMPLEMENTATION_ADDRESS = ''0x3e0BecB45eBf7Bd1e3943b9521264Bc5B0bd8Ca9'',
                   VALIDATOR_ADDRESS = ''0xA96fc9fA032e5f58E225D979f985D51BCb671eF8''\<rparr>"

subsection \<open>The recovery modal (components/RecoveryModal.tsx, later revision)\<close>

record modal_props =
  isOpen :: bool
  delegateIssue :: bool
  implementationIssue :: bool
  ownershipDisrupted :: bool

text \<open>\<^verbatim>\<open>const isUnrecoverable = delegateIssue && ownershipDisrupted && !implementationIssue\<close>\<close>

definition isUnrecoverable :: "modal_props \<Rightarrow> bool" where
  "isUnrecoverable p \<longleftrightarrow> delegateIssue p \<and> ownershipDisrupted p \<and> \<not> implementationIssue p"

text \<open>
  \<^verbatim>\<open>renderIssues\<close>: the issues are pushed in the order delegate, implementation,
  ownership. With no issue at all \<^verbatim>\<open>issues[0]\<close> is \<^verbatim>\<open>undefined\<close>, which the
  template literal prints as such.
\<close>

definition issues :: "modal_props \<Rightarrow> string list" where
  "issues p =
     (if delegateIssue p then [''delegate''] else []) @
     (if implementationIssue p then [''implementation''] else []) @
     (if ownershipDisrupted p then [''ownership''] else [])"

definition renderIssues :: "modal_props \<Rightarrow> string" where
  "renderIssues p =
     (let is = issues p in
      if length is > 1
      then join '', '' (butlast is) @ '' and '' @ last is @ '' are incorrect''
      else ''the '' @ (case is of [] \<Rightarrow> ''undefined'' | i # _ \<Rightarrow> i) @ '' is incorrect'')"

text \<open>
  What the modal renders. The two buttons carry the handler that a click runs: the
  component's \<^verbatim>\<open>onClose\<close> prop, or its own \<^verbatim>\<open>handleRecover\<close>.
\<close>

datatype modal_handler = OnClose | HandleRecover

record modal_button =
  label :: string
  onClick :: modal_handler
  disabled :: bool

datatype modal_body =
    UnrecoverableNotice
  | InconsistentNotice string bool

record modal_view =
  notice :: modal_body
  buttons :: "modal_button list"

text \<open>
  \<^verbatim>\<open>RecoveryModal\<close> with its state \<^verbatim>\<open>isRecovering\<close>: nothing is rendered while the
  modal is closed; the "Restore Account" button exists only under \<^verbatim>\<open>!isUnrecoverable\<close>.
\<close>

definition RecoveryModal :: "modal_props \<Rightarrow> bool \<Rightarrow> modal_view option" where
  "RecoveryModal p isRecovering =
     (if \<not> isOpen p then None
      else Some \<lparr>
        notice =
          (if isUnrecoverable p then UnrecoverableNotice
           else InconsistentNotice
                  (''Your account is in an inconsistent state where '' @ renderIssues p @ ''. '')
                  (ownershipDisrupted p)),
        buttons =
          [\<lparr>label = (if isUnrecoverable p then ''Close'' else ''Cancel''),
            onClick = OnClose, disabled = False\<rparr>] @
          (if \<not> isUnrecoverable p
           then [\<lparr>label = (if isRecovering then ''Recovering...'' else ''Restore Account''),
                  onClick = HandleRecover, disabled = isRecovering\<rparr>]
           else [])\<rparr>)"

text \<open>
  The props a handler calls. The modal's \<^verbatim>\<open>handleRecover\<close> closes the modal and then
  awaits \<^verbatim>\<open>onRecover\<close>; nothing else in the component calls \<^verbatim>\<open>onRecover\<close>.
\<close>

datatype modal_callback = CallOnClose | CallOnRecover

fun handler_calls :: "modal_handler \<Rightarrow> modal_callback list" where
  "handler_calls OnClose = [CallOnClose]"
| "handler_calls HandleRecover = [CallOnClose, CallOnRecover]"

definition reachable_calls :: "modal_view \<Rightarrow> modal_callback set" where
  "reachable_calls v = (\<Union>b \<in> set (buttons v). set (handler_calls (onClick b)))"

subsection \<open>Constants (app/lib/constants.ts)\<close>

definition EIP7702PROXY_TEMPLATE_ADDRESS :: string where
  "EIP7702PROXY_TEMPLATE_ADDRESS = ''0xcA271A94dd66982180960B579de6B3213084D67A''"

definition NONCE_TRACKER_ADDRESS :: string where
  "NONCE_TRACKER_ADDRESS = ''0x1e3C75E11F8c31ffe8BA28A648B1D58566df6d72''"

definition IMPLEMENTATION_SET_TYPEHASH :: string where
  "IMPLEMENTATION_SET_TYPEHASH =
     ''EIP7702ProxyImplementationSet(uint256 chainId,address proxy,uint256 nonce,address currentImplementation,address newImplementation,bytes callData,address validator)''"

definition ERC1967_IMPLEMENTATION_SLOT :: string where
  "ERC1967_IMPLEMENTATION_SLOT =
     ''0x360894a13ba1a3210667c828492db98dca3e2076cc3735a920a3ca505d382bbc''"

definition MAGIC_PREFIX :: string where
  "MAGIC_PREFIX = ''0xef0100''"

subsection \<open>The set-implementation commitment\<close>

record SetImplementationCommitment =
  chainId :: int
  proxyAddress :: string
  nonce :: int
  currentImplementation :: string
  newImplementation :: string
  callData :: string
  validator :: string

text \<open>
  The fields of a commitment in the order of the specification, each with the ABI type
  and the name under which the type descriptor declares it.
\<close>

definition commitmentFields ::
  "SetImplementationCommitment \<Rightarrow> (string \<times> abi_type \<times> abi_arg) list" where
  "commitmentFields c =
     [(''chainId'', T_uint256, Big (chainId c)),
      (''proxy'', T_address, Hex (proxyAddress c)),
      (''nonce'', T_uint256, Big (nonce c)),
      (''currentImplementation'', T_address, Hex (currentImplementation c)),
      (''newImplementation'', T_address, Hex (newImplementation c)),
      (''callData'', T_bytes, Hex (callData c)),
      (''validator'', T_address, Hex (validator c))]"

fun abi_type_name :: "abi_type \<Rightarrow> string" where
  "abi_type_name T_address = ''address''"
| "abi_type_name T_uint256 = ''uint256''"
| "abi_type_name T_bytes32 = ''bytes32''"
| "abi_type_name T_bytes = ''bytes''"
| "abi_type_name T_bytes_array = ''bytes[]''"

text \<open>The descriptor of a struct type: its name and its members, \<^verbatim>\<open>type name\<close> each.\<close>

definition typeDescriptor :: "string \<Rightarrow> (string \<times> abi_type \<times> abi_arg) list \<Rightarrow> string" where
  "typeDescriptor name members =
     name @ ''('' @ join '','' (map (\<lambda>(n, t, v). abi_type_name t @ '' '' @ n) members) @ '')''"

text \<open>
  Modelled from the spec: \<^verbatim>\<open>buildSetImplementationHash\<close>, which the cited revision of
  the repository has as \<^verbatim>\<open>createSetImplementationHash\<close> in \<^verbatim>\<open>lib/wallet-utils\<close>; only
  its call in \<^verbatim>\<open>handleRecover\<close> and the type descriptor are in the sources. Following
  section 4.1, the digest is the hash of an encoding that binds the type descriptor (as
  its hash) and then the seven fields in their fixed order, each under its declared type.
\<close>

definition buildSetImplementationHash ::
  "(bytes \<Rightarrow> bytes) \<Rightarrow> SetImplementationCommitment \<Rightarrow> string + string" where
  "buildSetImplementationHash K c =
     (let members = commitmentFields c;
          typeHash = bytesToHex (K (ascii IMPLEMENTATION_SET_TYPEHASH))
      in case encodeAbiParameters (T_bytes32 # map (\<lambda>(n, t, v). t) members)
                                  (Hex typeHash # map (\<lambda>(n, t, v). v) members) of
           Inl e \<Rightarrow> Inl e
         | Inr encoded \<Rightarrow> keccak256 K encoded)"

text \<open>
  Modelled from the spec: the function as \<^verbatim>\<open>handleRecover\<close> calls it, with the
  arguments in the order of the call and the validator taken from the constants. The
  specification does not say what \<^verbatim>\<open>allowCrossChainReplay = true\<close> changes; the only
  call passes \<^verbatim>\<open>false\<close>, and the model gives no digest otherwise.
\<close>

definition createSetImplementationHash ::
  "(bytes \<Rightarrow> bytes) \<Rightarrow> contracts \<Rightarrow> string \<Rightarrow> string \<Rightarrow> string \<Rightarrow> int \<Rightarrow> string \<Rightarrow> bool \<Rightarrow> int
     \<Rightarrow> string + string" where
  "createSetImplementationHash K cs proxyAddr newImpl calldata theNonce currentImpl
       allowCrossChainReplay theChainId =
     (if allowCrossChainReplay then Inl ''allowCrossChainReplay is not specified''
      else buildSetImplementationHash K
             \<lparr>chainId = theChainId, proxyAddress = proxyAddr, nonce = theNonce,
              currentImplementation = currentImpl, newImplementation = newImpl,
              callData = calldata, validator = VALIDATOR_ADDRESS cs\<rparr>)"

subsection \<open>The verification component (app/components/PasskeyVerification.tsx)\<close>

record VerificationStep =
  status :: string
  isComplete :: bool
  txHash :: jsval
  userOpHash :: jsval
  error :: "string option"

text \<open>A step as the object literal \<^verbatim>\<open>{ status, isComplete }\<close> creates it.\<close>

definition new_step :: "string \<Rightarrow> bool \<Rightarrow> VerificationStep" where
  "new_step s c = \<lparr>status = s, isComplete = c, txHash = JUndefined, userOpHash = JUndefined,
                    error = None\<rparr>"

text \<open>\<^verbatim>\<open>Partial<VerificationStep>\<close>: \<open>None\<close> for a key the literal does not have.\<close>

record step_update =
  set_status :: "string option"
  set_isComplete :: "bool option"
  set_txHash :: "jsval option"
  set_userOpHash :: "jsval option"
  set_error :: "string option"

definition no_update :: step_update where
  "no_update = \<lparr>set_status = None, set_isComplete = None, set_txHash = None,
                 set_userOpHash = None, set_error = None\<rparr>"


record UserOperation =
  sender :: string
  op_nonce :: int
  initCode :: string
  op_callData :: string
  callGasLimit :: int
  verificationGasLimit :: int
  preVerificationGas :: int
  maxFeePerGas :: int
  maxPriorityFeePerGas :: int
  paymasterAndData :: string
  signature :: string

text \<open>
  The state updates and parent callbacks of the component. \<^verbatim>\<open>console.log\<close> lines are
  left out.
\<close>

datatype pv_act =
    SetVerifying bool
  | SetSteps "VerificationStep list"
  | AddStep VerificationStep
  | UpdateStep nat step_update
  | SetIsVerified bool
  | SetShowRecoveryModal bool
  | OnStateChange string string
  | OnRecoveryComplete

text \<open>
  The calls the component awaits: \<^verbatim>\<open>fetch\<close> with the object it posts as JSON, the
  reads of the public client, and the smart account of viem with its methods.
  \<^verbatim>\<open>Promise.all([getCode, getStorageAt])\<close> settles once and is one call.
\<close>

datatype pv_call =
    Fetch string jsval
  | WaitForTransactionReceipt jsval
  | GetCodeAndStorageAt string string
  | GetStorageAt string string
  | GetBalance string
  | ReadContract string string "string list"
  | ToCoinbaseSmartAccount string int
  | EncodeCalls string
  | GetNonce
  | SignUserOperation UserOperation
  | SignMessage string

record fetch_reply =
  ok :: bool
  json :: "string + jsval"
  text_body :: string

datatype pv_reply =
    Void
  | Reply fetch_reply
  | HexOrUndefined "string option"
  | CodeAndSlot "string option" "string option"
  | Bigint int
  | HexValue string
  | Account

text \<open>
  The awaits by the type of what the call resolves to. The source is typed, so a reply
  of another shape cannot come back; the model lets such an await throw.
\<close>

definition ill_typed :: string where
  "ill_typed = ''TypeError''"

definition await_void :: "pv_call \<Rightarrow> (pv_act, pv_call, pv_reply, 'a) prog \<Rightarrow> (pv_act, pv_call, pv_reply, 'a) prog" where
  "await_void c k = await c (\<lambda>v. case v of Void \<Rightarrow> k | _ \<Rightarrow> Throw ill_typed)"

definition await_reply :: "pv_call \<Rightarrow> (fetch_reply \<Rightarrow> (pv_act, pv_call, pv_reply, 'a) prog) \<Rightarrow> (pv_act, pv_call, pv_reply, 'a) prog" where
  "await_reply c k = await c (\<lambda>v. case v of Reply r \<Rightarrow> k r | _ \<Rightarrow> Throw ill_typed)"

definition await_hex_or_undefined :: "pv_call \<Rightarrow> (string option \<Rightarrow> (pv_act, pv_call, pv_reply, 'a) prog) \<Rightarrow> (pv_act, pv_call, pv_reply, 'a) prog" where
  "await_hex_or_undefined c k = await c (\<lambda>v. case v of HexOrUndefined h \<Rightarrow> k h | _ \<Rightarrow> Throw ill_typed)"

definition await_code_and_slot :: "pv_call \<Rightarrow> (string option \<Rightarrow> string option \<Rightarrow> (pv_act, pv_call, pv_reply, 'a) prog) \<Rightarrow> (pv_act, pv_call, pv_reply, 'a) prog" where
  "await_code_and_slot c k = await c (\<lambda>v. case v of CodeAndSlot a b \<Rightarrow> k a b | _ \<Rightarrow> Throw ill_typed)"

definition await_bigint :: "pv_call \<Rightarrow> (int \<Rightarrow> (pv_act, pv_call, pv_reply, 'a) prog) \<Rightarrow> (pv_act, pv_call, pv_reply, 'a) prog" where
  "await_bigint c k = await c (\<lambda>v. case v of Bigint n \<Rightarrow> k n | _ \<Rightarrow> Throw ill_typed)"

definition await_hex :: "pv_call \<Rightarrow> (string \<Rightarrow> (pv_act, pv_call, pv_reply, 'a) prog) \<Rightarrow> (pv_act, pv_call, pv_reply, 'a) prog" where
  "await_hex c k = await c (\<lambda>v. case v of HexValue h \<Rightarrow> k h | _ \<Rightarrow> Throw ill_typed)"

definition await_account :: "pv_call \<Rightarrow> (pv_act, pv_call, pv_reply, 'a) prog \<Rightarrow> (pv_act, pv_call, pv_reply, 'a) prog" where
  "await_account c k = await c (\<lambda>v. case v of Account \<Rightarrow> k | _ \<Rightarrow> Throw ill_typed)"

text \<open>
  The props of the component, and what it takes from its imports and its environment:
  the hash function, the ids of the two chains, the constants of \<^verbatim>\<open>lib/contracts\<close>
  and \<^verbatim>\<open>lib/abi/EntryPoint\<close>, the relayer address of the process environment and
  \<^verbatim>\<open>serializeBigInts\<close> of \<^verbatim>\<open>lib/smart-account\<close>.
\<close>

record pv_props =
  smartWalletAddress :: string
  useAnvil :: bool
  isDelegateDisrupted :: bool
  isImplementationDisrupted :: bool

record pv_imports =
  keccak :: "bytes \<Rightarrow> bytes"
  js :: runtime
  contract_constants :: contracts
  localAnvil_id :: int
  odysseyTestnet_id :: int
  EntryPointAddress :: string
  NEXT_PUBLIC_RELAYER_ADDRESS :: string
  serializeBigInts :: "UserOperation \<Rightarrow> jsval"

definition MIN_DEPOSIT :: int where
  "MIN_DEPOSIT = 100000000000000000"

text \<open>\<^verbatim>\<open>s.slice(-n)\<close>: the last \<open>n\<close> characters, the whole string if it is shorter.\<close>

definition slice_last :: "nat \<Rightarrow> string \<Rightarrow> string" where
  "slice_last n s = drop (length s - n) s"

text \<open>Truthiness of an optional string and of a value read from JSON.\<close>

definition truthy_string :: "string option \<Rightarrow> bool" where
  "truthy_string s = (case s of None \<Rightarrow> False | Some x \<Rightarrow> x \<noteq> [])"

fun truthy :: "runtime \<Rightarrow> jsval \<Rightarrow> bool" where
  "truthy rt JUndefined = False"
| "truthy rt JNull = False"
| "truthy rt (JBool b) = b"
| "truthy rt (JNum n) = (numberToString rt n \<noteq> ''0'')"
| "truthy rt (JStr s) = (s \<noteq> [])"
| "truthy rt (JArr vs) = True"
| "truthy rt (JObj kvs) = True"

definition checkState :: "pv_props \<Rightarrow> (pv_act, pv_call, pv_reply, unit) prog" where
  "checkState p =
     await_code_and_slot
       (GetCodeAndStorageAt (smartWalletAddress p) ERC1967_IMPLEMENTATION_SLOT)
       (\<lambda>code slotValue.
          let implementationAddress =
                (if truthy_string slotValue then ''0x'' @ slice_last 40 (the slotValue) else ''0x'')
          in Act (OnStateChange (if truthy_string code then the code else ''0x'')
                    implementationAddress)
               (Return ()))"

definition updating :: "string \<Rightarrow> bool \<Rightarrow> jsval \<Rightarrow> step_update" where
  "updating s c h = no_update\<lparr>set_status := Some s, set_isComplete := Some c, set_txHash := Some h\<rparr>"

definition repairDelegate :: "pv_imports \<Rightarrow> pv_props \<Rightarrow> (pv_act, pv_call, pv_reply, unit) prog" where
  "repairDelegate im p =
     Act (AddStep (new_step ''Resetting delegate to relayer...'' False)) (
     await_reply (Fetch ''/api/relay''
         (JObj [(''operation'', JStr ''resetDelegate''),
                (''targetAddress'', JStr (smartWalletAddress p))])) (\<lambda>delegateResponse.
     if \<not> ok delegateResponse then Throw ''Failed to reset delegate''
     else
     attempt (json delegateResponse) (\<lambda>parsed.
     attempt (get_prop (js im) parsed ''hash'') (\<lambda>delegateHash.
     Act (UpdateStep 1 (updating ''Waiting for delegate reset transaction...'' False delegateHash)) (
     await_void (WaitForTransactionReceipt delegateHash) (
     bind (checkState p) (\<lambda>_.
     Act (UpdateStep 1 (updating ''Successfully reset delegate'' True delegateHash)) (
     Return ()))))))))"

definition repairImplementation :: "pv_imports \<Rightarrow> pv_props \<Rightarrow> (pv_act, pv_call, pv_reply, unit) prog" where
  "repairImplementation im p =
     Act (AddStep (new_step ''Resetting implementation to correct version...'' False)) (
     await_hex_or_undefined
       (GetStorageAt (smartWalletAddress p) ERC1967_IMPLEMENTATION_SLOT) (\<lambda>implementationSlotData.
     if \<not> truthy_string implementationSlotData then Throw ''Failed to read implementation slot''
     else
     let currentImpl = ''0x'' @ slice_last 40 (the implementationSlotData) in
     await_bigint (ReadContract NONCE_TRACKER_ADDRESS ''nonces'' [smartWalletAddress p]) (\<lambda>theNonce.
     await_bigint (ReadContract (smartWalletAddress p) ''nextOwnerIndex'' []) (\<lambda>nextOwnerIndex.
     let ourOwnerIndex = nextOwnerIndex - 1 in
     await_account (ToCoinbaseSmartAccount (smartWalletAddress p) ourOwnerIndex) (
     let theChainId = (if useAnvil p then localAnvil_id im else odysseyTestnet_id im) in
     attempt (createSetImplementationHash (keccak im) (contract_constants im)
                (smartWalletAddress p)
                (NEW_IMPLEMENTATION_ADDRESS (contract_constants im))
                ''0x''
                theNonce
                currentImpl
                False
                theChainId) (\<lambda>setImplementationHash.
     await_hex (SignMessage setImplementationHash) (\<lambda>sig.
     await_reply (Fetch ''/api/relay''
         (JObj [(''operation'', JStr ''resetImplementation''),
                (''targetAddress'', JStr (smartWalletAddress p)),
                (''signature'', JStr sig)])) (\<lambda>implementationResponse.
     if \<not> ok implementationResponse then Throw ''Failed to reset implementation''
     else
     attempt (json implementationResponse) (\<lambda>parsed.
     attempt (get_prop (js im) parsed ''hash'') (\<lambda>implementationHash.
     let stepIndex = (if isDelegateDisrupted p then 2 else 1) in
     Act (UpdateStep stepIndex
            (updating ''Waiting for implementation reset transaction...'' False implementationHash)) (
     await_void (WaitForTransactionReceipt implementationHash) (
     bind (checkState p) (\<lambda>_.
     Act (UpdateStep stepIndex
            (updating ''Successfully reset implementation'' True implementationHash)) (
     Return ()))))))))))))))"

text \<open>The check mark that opens the last status is U+2713, here in UTF-8.\<close>

definition check_mark :: string where
  "check_mark = [CHR 0xE2, CHR 0x9C, CHR 0x93]"

definition handleRecover :: "pv_imports \<Rightarrow> pv_props \<Rightarrow> (pv_act, pv_call, pv_reply, unit) prog" where
  "handleRecover im p =
     try_finally
       (try_catch
          (Act (SetVerifying True) (
           Act (SetSteps []) (
           Act (AddStep (new_step ''Starting account recovery...'' False)) (
           bind (if isDelegateDisrupted p then repairDelegate im p else Return ()) (\<lambda>_.
           bind (if isImplementationDisrupted p then repairImplementation im p else Return ()) (\<lambda>_.
           Act OnRecoveryComplete (
           Act (SetShowRecoveryModal False) (
           Act (AddStep (new_step (check_mark @ '' Account recovered successfully'') True)) (
           Return ())))))))))
          (\<lambda>errorMessage.
             Act (AddStep ((new_step ''Recovery failed'' True)\<lparr>error := Some errorMessage\<rparr>))
               (Return ())))
       [SetVerifying False]"



text \<open>
  The stages of a recovery as they show in a trace: a call is started when it is issued
  and has succeeded when its promise resolved (for a \<^verbatim>\<open>fetch\<close>, with \<^verbatim>\<open>response.ok\<close>);
  a step is marked when \<^verbatim>\<open>updateStep\<close> sets its \<^verbatim>\<open>isComplete\<close> to true.
\<close>

datatype stage =
    SubmitDelegateRepair
  | SubmitImplementationRepair
  | SubmitOther
  | Confirm
  | Inspect
  | ReadImplementationSlot
  | ReadNonce
  | ReadOther
  | MakeAccount
  | SignCommitment

datatype milestone = Started stage | Succeeded stage | Marked nat

definition posted_operation :: "jsval \<Rightarrow> string" where
  "posted_operation b =
     (case b of
        JObj kvs \<Rightarrow> (case map_of kvs ''operation'' of Some (JStr operation) \<Rightarrow> operation | _ \<Rightarrow> [])
      | _ \<Rightarrow> [])"

fun stage_of :: "pv_call \<Rightarrow> stage" where
  "stage_of (Fetch url b) =
     (if url = ''/api/relay'' \<and> posted_operation b = ''resetDelegate'' then SubmitDelegateRepair
      else if url = ''/api/relay'' \<and> posted_operation b = ''resetImplementation''
      then SubmitImplementationRepair
      else SubmitOther)"
| "stage_of (WaitForTransactionReceipt h) = Confirm"
| "stage_of (GetCodeAndStorageAt a s) = Inspect"
| "stage_of (GetStorageAt a s) = ReadImplementationSlot"
| "stage_of (ReadContract a f args) = (if a = NONCE_TRACKER_ADDRESS \<and> f = ''nonces'' then ReadNonce else ReadOther)"
| "stage_of (ToCoinbaseSmartAccount a i) = MakeAccount"
| "stage_of (SignMessage h) = SignCommitment"
| "stage_of c = ReadOther"

fun has_succeeded :: "pv_reply settled option \<Rightarrow> bool" where
  "has_succeeded (Some (Resolved (Reply r))) = ok r"
| "has_succeeded (Some (Resolved v)) = True"
| "has_succeeded r = False"

fun milestones_of :: "(pv_act, pv_call, pv_reply) event \<Rightarrow> milestone list" where
  "milestones_of (Awaited c r) =
     Started (stage_of c) # (if has_succeeded r then [Succeeded (stage_of c)] else [])"
| "milestones_of (Did (UpdateStep i u)) = (if set_isComplete u = Some True then [Marked i] else [])"
| "milestones_of (Did a) = []"

definition milestones :: "(pv_act, pv_call, pv_reply) event list \<Rightarrow> milestone list" where
  "milestones t = concat (map milestones_of t)"

definition delegate_repair_order :: "milestone list" where
  "delegate_repair_order =
     [Started SubmitDelegateRepair, Succeeded SubmitDelegateRepair,
      Started Confirm, Succeeded Confirm,
      Started Inspect, Succeeded Inspect,
      Marked 1]"

definition implementation_repair_order :: "nat \<Rightarrow> milestone list" where
  "implementation_repair_order stepIndex =
     [Started ReadImplementationSlot, Succeeded ReadImplementationSlot,
      Started ReadNonce, Succeeded ReadNonce,
      Started ReadOther, Succeeded ReadOther,
      Started MakeAccount, Succeeded MakeAccount,
      Started SignCommitment, Succeeded SignCommitment,
      Started SubmitImplementationRepair, Succeeded SubmitImplementationRepair,
      Started Confirm, Succeeded Confirm,
      Started Inspect, Succeeded Inspect,
      Marked stepIndex]"

text \<open>
  \<^verbatim>\<open>handleVerify\<close>. A disrupted account only opens the recovery modal. The indices passed
  to \<^verbatim>\<open>updateStep\<close> are the literals of the source.
\<close>

definition setting_error :: "string \<Rightarrow> step_update" where
  "setting_error e = no_update\<lparr>set_error := Some e, set_isComplete := Some True\<rparr>"

definition setting_status :: "string \<Rightarrow> bool \<Rightarrow> step_update" where
  "setting_status s c = no_update\<lparr>set_status := Some s, set_isComplete := Some c\<rparr>"

definition fundAccount :: "pv_imports \<Rightarrow> pv_props \<Rightarrow> (pv_act, pv_call, pv_reply, unit) prog" where
  "fundAccount im p =
     Act (UpdateStep 0 (setting_status ''Funding smart account with 1 wei...'' False)) (
     await_reply (Fetch ''/api/relay''
         (JObj [(''operation'', JStr ''fund''),
                (''targetAddress'', JStr (smartWalletAddress p)),
                (''value'', JStr ''1''),
                (''useAnvil'', JBool (useAnvil p))])) (\<lambda>response.
     if \<not> ok response then Throw ''Failed to fund smart account''
     else
     attempt (json response) (\<lambda>parsed.
     attempt (get_prop (js im) parsed ''hash'') (\<lambda>hash.
     await_void (WaitForTransactionReceipt hash) (
     Return ())))))"

text \<open>
  The three blocks that post to a route of \<^verbatim>\<open>/api/verify-passkey\<close> leave the handler
  with \<^verbatim>\<open>return\<close> when the response is not ok; \<open>False\<close> is that early return,
  \<open>True\<close> goes on.
\<close>

definition prefundDeposit :: "pv_imports \<Rightarrow> pv_props \<Rightarrow> (pv_act, pv_call, pv_reply, bool) prog" where
  "prefundDeposit im p =
     Act (AddStep (new_step ''Pre-funding smart account gas in EntryPoint...'' False)) (
     await_reply (Fetch ''/api/verify-passkey/deposit''
         (JObj [(''smartWalletAddress'', JStr (smartWalletAddress p)),
                (''useAnvil'', JBool (useAnvil p))])) (\<lambda>depositResponse.
     if \<not> ok depositResponse
     then Act (UpdateStep 1 (setting_error (text_body depositResponse))) (Return False)
     else
     attempt (json depositResponse) (\<lambda>parsed.
     attempt (get_prop (js im) parsed ''txHash'') (\<lambda>depositTxHash.
     Act (UpdateStep 1
            (updating ''Waiting for EntryPoint pre-funding transaction...'' False depositTxHash)) (
     await_void (WaitForTransactionReceipt depositTxHash) (
     await_bigint (ReadContract (EntryPointAddress im) ''balanceOf'' [smartWalletAddress p])
       (\<lambda>newDeposit.
     Act (UpdateStep 1 (updating ''EntryPoint pre-funding complete'' True depositTxHash)) (
     Return True))))))))"

definition signUserOp :: "pv_imports \<Rightarrow> pv_props \<Rightarrow> (pv_act, pv_call, pv_reply, UserOperation) prog" where
  "signUserOp im p =
     Act (AddStep (new_step ''Creating and signing userOp to transfer 1 wei to relayer...'' False)) (
     await_bigint (ReadContract (smartWalletAddress p) ''nextOwnerIndex'' []) (\<lambda>nextOwnerIndex.
     let ourOwnerIndex = nextOwnerIndex - 1 in
     await_account (ToCoinbaseSmartAccount (smartWalletAddress p) ourOwnerIndex) (
     await_hex (EncodeCalls (NEXT_PUBLIC_RELAYER_ADDRESS im)) (\<lambda>encodedCalls.
     await_bigint GetNonce (\<lambda>accountNonce.
     let unsignedUserOp =
           \<lparr>sender = smartWalletAddress p, op_nonce = accountNonce, initCode = ''0x'',
            op_callData = encodedCalls, callGasLimit = 500000, verificationGasLimit = 500000,
            preVerificationGas = 100000, maxFeePerGas = 3000000000,
            maxPriorityFeePerGas = 2000000000, paymasterAndData = ''0x'', signature = ''0x''\<rparr>
     in
     await_hex (SignUserOperation unsignedUserOp) (\<lambda>sig.
     let userOp = unsignedUserOp\<lparr>signature := sig\<rparr> in
     Act (UpdateStep 2 (setting_status ''UserOperation created and signed'' True)) (
     Return userOp)))))))"

definition submitUserOp ::
  "pv_imports \<Rightarrow> pv_props \<Rightarrow> UserOperation \<Rightarrow> (pv_act, pv_call, pv_reply, bool) prog" where
  "submitUserOp im p userOp =
     Act (AddStep (new_step ''Submitting userOperation...'' False)) (
     await_reply (Fetch ''/api/verify-passkey/submit''
         (JObj [(''userOp'', serializeBigInts im userOp),
                (''useAnvil'', JBool (useAnvil p))])) (\<lambda>submitResponse.
     if \<not> ok submitResponse
     then Act (UpdateStep 3 (setting_error (text_body submitResponse))) (Return False)
     else
     attempt (json submitResponse) (\<lambda>parsed.
     attempt (get_prop (js im) parsed ''txHash'') (\<lambda>hash.
     attempt (get_prop (js im) parsed ''userOpHash'') (\<lambda>opHash.
     Act (UpdateStep 3
            ((updating ''Waiting for userOperation transaction...'' False hash)
               \<lparr>set_userOpHash := Some opHash\<rparr>)) (
     await_void (WaitForTransactionReceipt hash) (
     Act (UpdateStep 3
            ((updating ''UserOperation submitted successfully'' True hash)
               \<lparr>set_userOpHash := Some opHash\<rparr>)) (
     Return True))))))))"

definition retrieveDeposit :: "pv_imports \<Rightarrow> pv_props \<Rightarrow> (pv_act, pv_call, pv_reply, bool) prog" where
  "retrieveDeposit im p =
     Act (AddStep (new_step ''Retrieving unused deposit...'' False)) (
     await_reply (Fetch ''/api/verify-passkey/retrieve''
         (JObj [(''smartWalletAddress'', JStr (smartWalletAddress p)),
                (''useAnvil'', JBool (useAnvil p))])) (\<lambda>retrieveResponse.
     if \<not> ok retrieveResponse
     then Act (UpdateStep 4 (setting_error (text_body retrieveResponse))) (Return False)
     else
     attempt (json retrieveResponse) (\<lambda>parsed.
     attempt (get_prop (js im) parsed ''txHash'') (\<lambda>retrieveTxHash.
     if truthy (js im) retrieveTxHash
     then
       Act (UpdateStep 4 (updating ''Waiting for withdrawal transaction...'' False retrieveTxHash)) (
       await_void (WaitForTransactionReceipt retrieveTxHash) (
       Act (UpdateStep 4
              (updating ''Successfully retrieved unused deposit'' True retrieveTxHash)) (
       Return True)))
     else
       Act (UpdateStep 4 (setting_status ''No unused deposit to retrieve'' True)) (
       Return True)))))"

definition handleVerify :: "pv_imports \<Rightarrow> pv_props \<Rightarrow> (pv_act, pv_call, pv_reply, unit) prog" where
  "handleVerify im p =
     (if isDelegateDisrupted p \<or> isImplementationDisrupted p
      then Act (SetShowRecoveryModal True) (Return ())
      else
      try_finally
        (try_catch
           (Act (SetVerifying True) (
            Act (SetSteps []) (
            Act (SetIsVerified False) (
            await_bigint (ReadContract (EntryPointAddress im) ''balanceOf'' [smartWalletAddress p])
              (\<lambda>currentDeposit.
            Act (AddStep (new_step ''Checking smart account balance...'' False)) (
            await_bigint (GetBalance (smartWalletAddress p)) (\<lambda>accountBalance.
            bind (if accountBalance = 0 then fundAccount im p else Return ()) (\<lambda>_.
            Act (UpdateStep 0 (setting_status ''Smart account balance verified'' True)) (
            bind (if currentDeposit < MIN_DEPOSIT then prefundDeposit im p else Return True)
              (\<lambda>goOn.
            if \<not> goOn then Return ()
            else
            bind (signUserOp im p) (\<lambda>userOp.
            bind (submitUserOp im p userOp) (\<lambda>goOn.
            if \<not> goOn then Return ()
            else
            bind (retrieveDeposit im p) (\<lambda>goOn.
            if \<not> goOn then Return ()
            else
            Act (SetIsVerified True) (
            Return ()))))))))))))))
           (\<lambda>errorMessage.
              Act (AddStep ((new_step ''Verification failed'' True)\<lparr>error := Some errorMessage\<rparr>))
                (Return ())))
        [SetVerifying False])"




text \<open>
  A monitor for the inputs of the commitments of a recovery attempt. Along the trace it
  keeps what the last read of the implementation slot of the account and the last read
  of its nonce in the tracker resolved to; a submission to a server or a wait for a
  transaction makes both stale. Each digest handed to \<^verbatim>\<open>signMessage\<close> must be the
  set-implementation hash built from the two values kept at that moment.
\<close>

fun commitments_fresh ::
  "pv_imports \<Rightarrow> pv_props \<Rightarrow> string option \<Rightarrow> int option \<Rightarrow> (pv_act, pv_call, pv_reply) event list \<Rightarrow> bool" where
  "commitments_fresh im p s n [] = True"
| "commitments_fresh im p s n (Did a # t) = commitments_fresh im p s n t"
| "commitments_fresh im p s n (Awaited (GetStorageAt a sl) r # t) =
     commitments_fresh im p
       (if a = smartWalletAddress p \<and> sl = ERC1967_IMPLEMENTATION_SLOT
        then (case r of Some (Resolved (HexOrUndefined (Some d))) \<Rightarrow> Some d | _ \<Rightarrow> None)
        else s)
       n t"
| "commitments_fresh im p s n (Awaited (ReadContract a f args) r # t) =
     commitments_fresh im p s
       (if a = NONCE_TRACKER_ADDRESS \<and> f = ''nonces'' \<and> args = [smartWalletAddress p]
        then (case r of Some (Resolved (Bigint k)) \<Rightarrow> Some k | _ \<Rightarrow> None)
        else n)
       t"
| "commitments_fresh im p s n (Awaited (Fetch url b) r # t) = commitments_fresh im p None None t"
| "commitments_fresh im p s n (Awaited (WaitForTransactionReceipt h) r # t) =
     commitments_fresh im p None None t"
| "commitments_fresh im p s n (Awaited (SignMessage h) r # t) =
     ((case (s, n) of
         (Some d, Some k) \<Rightarrow>
           createSetImplementationHash (keccak im) (contract_constants im)
             (smartWalletAddress p) (NEW_IMPLEMENTATION_ADDRESS (contract_constants im))
             ''0x'' k (''0x'' @ slice_last 40 d) False
             (if useAnvil p then localAnvil_id im else odysseyTestnet_id im) = Inr h
       | _ \<Rightarrow> False)
      \<and> commitments_fresh im p s n t)"
| "commitments_fresh im p s n (Awaited c r # t) = commitments_fresh im p s n t"

subsection \<open>Signing the initialization hash\<close>

text \<open>
  \<^verbatim>\<open>Number.prototype.toString\<close> in base 16 and in base 10, and
  \<^verbatim>\<open>String.prototype.padStart\<close>.
\<close>

fun toString16 :: "nat \<Rightarrow> string" where
  "toString16 n = (if n < 16 then [hexDigit n] else toString16 (n div 16) @ [hexDigit (n mod 16)])"

fun toString10 :: "nat \<Rightarrow> string" where
  "toString10 n = (if n < 10 then [hexDigit n] else toString10 (n div 10) @ [hexDigit (n mod 10)])"

declare toString16.simps [simp del]
declare toString10.simps [simp del]

definition padStart :: "nat \<Rightarrow> char \<Rightarrow> string \<Rightarrow> string" where
  "padStart n c s = replicate (n - length s) c @ s"

text \<open>
  What \<^verbatim>\<open>secp256k1.sign(hash, key)\<close> of \<^verbatim>\<open>@noble/curves\<close> returns: the two scalars
  and the recovery bit. The signing function is a parameter; it throws on a key that is
  no valid scalar.
\<close>

record ecdsa_signature =
  sig_r :: nat
  sig_s :: nat
  recovery :: nat

type_synonym signer = "bytes \<Rightarrow> bytes \<Rightarrow> string + ecdsa_signature"

text \<open>
  \<^verbatim>\<open>signInitialization\<close> of \<^verbatim>\<open>scripts/upgrade-wallet.ts\<close>. The wallet client is
  given by the private key of its account, if it has one.
\<close>

definition script_signInitialization :: "signer \<Rightarrow> string option \<Rightarrow> string \<Rightarrow> string + string" where
  "script_signInitialization sign account hash =
     (case account of
        None \<Rightarrow> Inl ''Wallet client has no account''
      | Some privateKey \<Rightarrow>
          (case noble_hexToBytes (drop 2 privateKey) of
             Inl e \<Rightarrow> Inl e
           | Inr privateKeyBytes \<Rightarrow>
               (case noble_hexToBytes (drop 2 hash) of
                  Inl e \<Rightarrow> Inl e
                | Inr hashBytes \<Rightarrow>
                    (case sign hashBytes privateKeyBytes of
                       Inl e \<Rightarrow> Inl e
                     | Inr sg \<Rightarrow>
                         (let r = padStart 64 CHR ''0'' (toString16 (sig_r sg));
                              s = padStart 64 CHR ''0'' (toString16 (sig_s sg));
                              v = recovery sg + 27
                          in Inr (''0x'' @ r @ s @ toString16 v))))))"

text \<open>
  viem's \<^verbatim>\<open>signMessage({ message })\<close> for an account that holds its key, with a message
  given as a string: the message is taken as text, prefixed as EIP-191 prescribes with
  \<^verbatim>\<open>"\x19Ethereum Signed Message:\n"\<close> and its length in bytes, hashed, and the hash is
  signed; the signature is serialised as r, s and the byte 27 or 28.
\<close>

definition toPrefixedMessage :: "string \<Rightarrow> bytes" where
  "toPrefixedMessage message =
     ascii ([CHR 0x19] @ ''Ethereum Signed Message:'' @ [CHR 0x0A] @ toString10 (length message))
     @ ascii message"

definition serializeSignature :: "ecdsa_signature \<Rightarrow> string" where
  "serializeSignature sg =
     ''0x'' @ padStart 64 CHR ''0'' (toString16 (sig_r sg))
            @ padStart 64 CHR ''0'' (toString16 (sig_s sg))
            @ (if recovery sg = 0 then ''1b'' else ''1c'')"

definition viem_signMessage :: "(bytes \<Rightarrow> bytes) \<Rightarrow> signer \<Rightarrow> string \<Rightarrow> string \<Rightarrow> string + string" where
  "viem_signMessage K sign privateKey message =
     (case hexToBytes privateKey of
        None \<Rightarrow> Inl ''InvalidHexValueError''
      | Some privateKeyBytes \<Rightarrow>
          (case sign (K (toPrefixedMessage message)) privateKeyBytes of
             Inl e \<Rightarrow> Inl e
           | Inr sg \<Rightarrow> Inr (serializeSignature sg)))"

text \<open>\<^verbatim>\<open>signInitialization\<close> of \<^verbatim>\<open>lib/wallet-utils.ts\<close>.\<close>

definition signInitialization :: "(bytes \<Rightarrow> bytes) \<Rightarrow> signer \<Rightarrow> string \<Rightarrow> string \<Rightarrow> string + string" where
  "signInitialization K sign wallet message = viem_signMessage K sign wallet message"

subsection \<open>The state of the account (components/AccountState.tsx)\<close>

text \<open>\<^verbatim>\<open>String.prototype.toLowerCase\<close> on the ASCII letters.\<close>

definition lower :: "char \<Rightarrow> char" where
  "lower c = (let n = (of_char c :: nat) in if 65 \<le> n \<and> n \<le> 90 then char_of (n + 32) else c)"

definition toLowerCase :: "string \<Rightarrow> string" where
  "toLowerCase s = map lower s"

text \<open>
  Modelled from the spec: \<^verbatim>\<open>getExpectedBytecode\<close> of \<^verbatim>\<open>lib/contract-utils\<close>, of which
  the sources have only the call \<^verbatim>\<open>getExpectedBytecode(false)\<close>. By section 4.3 the
  expected bytecode is the delegation magic prefix followed by the expected delegate
  address, which is a parameter here.
\<close>

definition getExpectedBytecode :: "string \<Rightarrow> string" where
  "getExpectedBytecode expectedDelegate = MAGIC_PREFIX @ drop 2 expectedDelegate"

definition isCorrectBytecode :: "string \<Rightarrow> string \<Rightarrow> bool" where
  "isCorrectBytecode expectedDelegate bytecode \<longleftrightarrow>
     toLowerCase bytecode = toLowerCase (getExpectedBytecode expectedDelegate)"

text \<open>
  The class the component gives to each of the two values: red for an issue, green for
  a correct value, yellow while there is no value (\<^verbatim>\<open>null\<close> or the empty string).
\<close>

datatype state_class = Red | Green | NotChecked

definition bytecode_class :: "string \<Rightarrow> string option \<Rightarrow> state_class" where
  "bytecode_class expectedDelegate currentBytecode =
     (if truthy_string currentBytecode
      then (if the currentBytecode = ''0x'' \<or> \<not> isCorrectBytecode expectedDelegate (the currentBytecode)
            then Red else Green)
      else NotChecked)"

definition slot_class :: "contracts \<Rightarrow> string option \<Rightarrow> state_class" where
  "slot_class cs currentSlotValue =
     (if truthy_string currentSlotValue
      then (if toLowerCase (the currentSlotValue) \<noteq> toLowerCase (NEW_IMPLEMENTATION_ADDRESS cs)
            then Red else Green)
      else NotChecked)"

text \<open>
  What \<^verbatim>\<open>checkState\<close> reports to \<^verbatim>\<open>onStateChange\<close> for the code and the slot value
  that the two reads resolve to, as in \<open>checkState\<close> above.
\<close>

definition reported_code :: "string option \<Rightarrow> string" where
  "reported_code code = (if truthy_string code then the code else ''0x'')"

definition reported_implementation :: "string option \<Rightarrow> string" where
  "reported_implementation slotValue =
     (if truthy_string slotValue then ''0x'' @ slice_last 40 (the slotValue) else ''0x'')"

subsection \<open>Concrete inputs\<close>

text \<open>
  Imports, props and replies on which the handlers are run below. The hash is a stand-in
  with 32 bytes of output; no statement depends on which function it is.
\<close>

definition a_hash :: "bytes \<Rightarrow> bytes" where
  "a_hash b = take 32 (b @ replicate 32 0)"

definition some_imports :: pv_imports where
  "some_imports =
     \<lparr>keccak = a_hash, js = a_runtime, contract_constants = a_contracts,
      localAnvil_id = 31337, odysseyTestnet_id = 911867,
      EntryPointAddress = ''0x5FF137D4b0FDCD49DcA30c7CF57E578a026d2789'',
      NEXT_PUBLIC_RELAYER_ADDRESS = ''0x3C44CdDdB6a900fa2b585dd299e03d12FA4293BC'',
      serializeBigInts = (\<lambda>u. JObj [])\<rparr>"

definition both_disrupted :: pv_props where
  "both_disrupted =
     \<lparr>smartWalletAddress = ''0x261D8c5e9742e6f7f1076Fa1F560894524e19cad'', useAnvil = True,
      isDelegateDisrupted = True, isImplementationDisrupted = True\<rparr>"

definition relay_accepts :: "string \<Rightarrow> pv_reply settled" where
  "relay_accepts h =
     Resolved (Reply \<lparr>ok = True, json = Inr (JObj [(''hash'', JStr h)]), text_body = []\<rparr>)"


definition delegate_repaired :: "pv_reply settled list" where
  "delegate_repaired =
     [relay_accepts ''0xaa'',
      Resolved Void,
      Resolved (CodeAndSlot
        (Some ''0xef0100ca271a94dd66982180960b579de6b3213084d67a'')
        (Some ''0x000000000000000000000000baaab2feecd974717816fa5ac540d96ad12eb342''))]"

definition reads_done :: "pv_reply settled list" where
  "reads_done =
     delegate_repaired @
     [Resolved (HexOrUndefined
        (Some ''0x000000000000000000000000baaab2feecd974717816fa5ac540d96ad12eb342'')),
      Resolved (Bigint 7),
      Resolved (Bigint 1),
      Resolved Account]"

definition a_commitment :: SetImplementationCommitment where
  "a_commitment =
     \<lparr>chainId = 31337,
      proxyAddress = ''0x261D8c5e9742e6f7f1076Fa1F560894524e19cad'',
      nonce = 7,
      currentImplementation = ''0xbaaab2feecd974717816fa5ac540d96ad12eb342'',
      newImplementation = ''0x3e0BecB45eBf7Bd1e3943b9521264Bc5B0bd8Ca9'',
      callData = ''0x'',
      validator = ''0xA96fc9fA032e5f58E225D979f985D51BCb671eF8''\<rparr>"

definition a_signer :: signer where
  "a_signer h k = Inr \<lparr>sig_r = length h, sig_s = length k, recovery = 1\<rparr>"

definition a_slot_word :: bytes where
  "a_slot_word = replicate 12 0 @
     [0x3e, 0x0B, 0xec, 0xB4, 0x5e, 0xBf, 0x7B, 0xd1, 0xe3, 0x94,
      0x3b, 0x95, 0x21, 0x26, 0x4B, 0xc5, 0xB0, 0xbd, 0x8C, 0xa9]"

definition a_delegation :: bytes where
  "a_delegation = [0xef, 0x01, 0x00] @
     [0xcA, 0x27, 0x1A, 0x94, 0xdd, 0x66, 0x98, 0x21, 0x80, 0x96,
      0x0B, 0x57, 0x9d, 0xe6, 0xB3, 0x21, 0x30, 0x84, 0xD6, 0x7A]"

section \<open>Properties\<close>

text \<open>
  C5. For the issue vector delegateIncorrect = true, implementationIncorrect = false,
  ownershipDisrupted = true, and for no other vector, the open recovery modal shows the
  distinct "unrecoverable" notice and offers no repair: no button runs the recover handler,
  so the \<^verbatim>\<open>onRecover\<close> prop cannot be called from it. For every other vector the recover
  action is offered.
\<close>

theorem C5_unrecoverable_only_for_delegate_and_ownership:
  assumes "RecoveryModal p r = Some v"
  shows "(notice v = UnrecoverableNotice \<longleftrightarrow>
            delegateIssue p \<and> \<not> implementationIssue p \<and> ownershipDisrupted p)
       \<and> (CallOnRecover \<notin> reachable_calls v \<longleftrightarrow>
            delegateIssue p \<and> \<not> implementationIssue p \<and> ownershipDisrupted p)
       \<and> (HandleRecover \<notin> onClick ` set (buttons v) \<longleftrightarrow>
            delegateIssue p \<and> \<not> implementationIssue p \<and> ownershipDisrupted p)"
  using assms
  by (auto simp: RecoveryModal_def isUnrecoverable_def reachable_calls_def
           split: if_splits)

theorem C5_unrecoverable_witness:
  "RecoveryModal \<lparr>isOpen = True, delegateIssue = True, implementationIssue = False,
                  ownershipDisrupted = True\<rparr> False
     = Some \<lparr>notice = UnrecoverableNotice,
             buttons = [\<lparr>label = ''Close'', onClick = OnClose, disabled = False\<rparr>]\<rparr>
   \<and> CallOnRecover \<notin> reachable_calls
       \<lparr>notice = UnrecoverableNotice,
        buttons = [\<lparr>label = ''Close'', onClick = OnClose, disabled = False\<rparr>]\<rparr>"
proof -
  have h: "RecoveryModal \<lparr>isOpen = True, delegateIssue = True, implementationIssue = False,
                  ownershipDisrupted = True\<rparr> False
     = Some \<lparr>notice = UnrecoverableNotice,
             buttons = [\<lparr>label = ''Close'', onClick = OnClose, disabled = False\<rparr>]\<rparr>"
    by (simp add: RecoveryModal_def isUnrecoverable_def)
  from C5_unrecoverable_only_for_delegate_and_ownership [OF h] h show ?thesis
    by simp
qed



subsection \<open>Hex strings and the commitment encoding\<close>

lemma digitVal_hexDigit:
  assumes "n < 16"
  shows "digitVal (hexDigit n) = Some n"
proof -
  from assms consider "n < 4" | "4 \<le> n \<and> n < 8" | "8 \<le> n \<and> n < 12" | "12 \<le> n \<and> n < 16"
    by arith
  then show ?thesis
  proof cases
    case 1
    then have "n \<in> {0, 1, 2, 3}" by auto
    then show ?thesis by (auto simp: digitVal_def hexDigit_def)
  next
    case 2
    then have "n \<in> {4, 5, 6, 7}" by auto
    then show ?thesis by (auto simp: digitVal_def hexDigit_def)
  next
    case 3
    then have "n \<in> {8, 9, 10, 11}" by auto
    then show ?thesis by (auto simp: digitVal_def hexDigit_def)
  next
    case 4
    then have "n \<in> {12, 13, 14, 15}" by auto
    then show ?thesis by (auto simp: digitVal_def hexDigit_def)
  qed
qed

lemma parseHex_byteToHex: "parseHex (byteToHex b @ cs) = map_option ((#) b) (parseHex cs)"
proof -
  have "unat b < 256" using unsigned_less[of b] by simp
  then have 1: "unat b div 16 < 16" by arith
  have 2: "unat b mod 16 < 16" by simp
  have 3: "(of_nat (16 * (unat b div 16) + unat b mod 16) :: byte) = b" by simp
  show ?thesis
    using 3 by (simp add: byteToHex_def digitVal_hexDigit[OF 1] digitVal_hexDigit[OF 2] split: option.splits)
qed

lemma parseHex_hexString: "parseHex (hexString bs) = Some bs"
  by (induction bs) (simp_all add: hexString_def parseHex_byteToHex)

lemma hexToBytes_bytesToHex: "hexToBytes (bytesToHex bs) = Some bs"
  by (simp add: hexToBytes_def bytesToHex_def parseHex_hexString)

lemma bytesToHex_inject: "bytesToHex a = bytesToHex b \<longleftrightarrow> a = b"
proof
  assume "bytesToHex a = bytesToHex b"
  then have "hexToBytes (bytesToHex a) = hexToBytes (bytesToHex b)" by simp
  then show "a = b" by (simp only: hexToBytes_bytesToHex option.inject)
next
  assume "a = b"
  then show "bytesToHex a = bytesToHex b" by simp
qed

lemma lower_hexDigit:
  assumes "n < 16"
  shows "lower (hexDigit n) = hexDigit n"
proof -
  from assms consider "n < 4" | "4 \<le> n \<and> n < 8" | "8 \<le> n \<and> n < 12" | "12 \<le> n \<and> n < 16"
    by arith
  then show ?thesis
  proof cases
    case 1
    then have "n \<in> {0, 1, 2, 3}" by auto
    then show ?thesis by (auto simp: lower_def hexDigit_def)
  next
    case 2
    then have "n \<in> {4, 5, 6, 7}" by auto
    then show ?thesis by (auto simp: lower_def hexDigit_def)
  next
    case 3
    then have "n \<in> {8, 9, 10, 11}" by auto
    then show ?thesis by (auto simp: lower_def hexDigit_def)
  next
    case 4
    then have "n \<in> {12, 13, 14, 15}" by auto
    then show ?thesis by (auto simp: lower_def hexDigit_def)
  qed
qed

lemma byte_nibbles: "unat (b :: byte) div 16 < 16" "unat b mod 16 < 16"
proof -
  have "unat b < 256" using unsigned_less[of b] by simp
  then show "unat b div 16 < 16" by arith
  show "unat b mod 16 < 16" by simp
qed

lemma toLowerCase_hexString: "toLowerCase (hexString b) = hexString b"
  by (induction b)
     (simp_all add: toLowerCase_def hexString_def byteToHex_def lower_hexDigit byte_nibbles)

lemma toLowerCase_bytesToHex: "toLowerCase (bytesToHex b) = bytesToHex b"
  using toLowerCase_hexString[of b]
  by (simp add: bytesToHex_def toLowerCase_def lower_def)

lemma of_char_hexDigit_low:
  assumes "v < 10"
  shows "(of_char (hexDigit v) :: nat) = 48 + v"
proof -
  from assms have "v < 5 \<or> (5 \<le> v \<and> v < 10)" by arith
  then show ?thesis
  proof
    assume "v < 5"
    then have "v = 0 \<or> v = 1 \<or> v = 2 \<or> v = 3 \<or> v = 4" by arith
    then show ?thesis by (auto simp: hexDigit_def)
  next
    assume "5 \<le> v \<and> v < 10"
    then have "v = 5 \<or> v = 6 \<or> v = 7 \<or> v = 8 \<or> v = 9" by arith
    then show ?thesis by (auto simp: hexDigit_def)
  qed
qed

lemma of_char_hexDigit_high:
  assumes "10 \<le> v" and "v < 16"
  shows "(of_char (hexDigit v) :: nat) = 87 + v"
proof -
  from assms have "v = 10 \<or> v = 11 \<or> v = 12 \<or> v = 13 \<or> v = 14 \<or> v = 15" by arith
  then show ?thesis by (auto simp: hexDigit_def)
qed

lemma digitVal_lower:
  assumes "digitVal c = Some v"
  shows "v < 16 \<and> lower c = hexDigit v"
proof -
  define n where "n = (of_char c :: nat)"
  from assms consider
      "48 \<le> n" "n \<le> 57" "v = n - 48"
    | "97 \<le> n" "n \<le> 102" "v = n - 87"
    | "65 \<le> n" "n \<le> 70" "v = n - 55"
    by (auto simp: digitVal_def n_def Let_def split: if_splits)
  then have "v < 16 \<and> (of_char (lower c) :: nat) = of_char (hexDigit v)"
  proof cases
    case 1
    then have v: "v < 10" and n: "n = 48 + v" by arith+
    from 1 have "lower c = c" by (simp add: lower_def n_def)
    with v n of_char_hexDigit_low[OF v] show ?thesis by (simp add: n_def)
  next
    case 2
    then have v: "10 \<le> v" "v < 16" and n: "n = 87 + v" by arith+
    from 2 have "lower c = c" by (simp add: lower_def n_def)
    with v n of_char_hexDigit_high[OF v] show ?thesis by (simp add: n_def)
  next
    case 3
    then have v: "10 \<le> v" "v < 16" and n: "n = 55 + v" by arith+
    from 3 have "lower c = char_of (n + 32)" by (simp add: lower_def n_def)
    moreover from 3 have "(n + 32) mod 256 = n + 32" by simp
    ultimately have "(of_char (lower c) :: nat) = n + 32" by simp
    with v n of_char_hexDigit_high[OF v] show ?thesis by simp
  qed
  then show ?thesis by (simp add: of_char_eq_iff)
qed

lemma parseHex_lower:
  "parseHex s = Some b \<Longrightarrow> toLowerCase s = hexString b"
proof (induction s arbitrary: b rule: parseHex.induct)
  case 1
  then show ?case by (simp add: toLowerCase_def hexString_def)
next
  case (2 c)
  then show ?case by simp
next
  case (3 c d cs)
  from "3.prems" obtain h l bs where
    h: "digitVal c = Some h" and l: "digitVal d = Some l" and bs: "parseHex cs = Some bs"
    and b: "b = of_nat (16 * h + l) # bs"
    by (auto split: option.splits)
  from digitVal_lower[OF h] digitVal_lower[OF l]
  have hl: "h < 16" "l < 16" "lower c = hexDigit h" "lower d = hexDigit l" by auto
  then have "16 * h + l < 256" by arith
  moreover have "unat (of_nat m :: byte) = m mod 256" for m
    by (simp add: unat_of_nat)
  ultimately have u: "unat (of_nat (16 * h + l) :: byte) = 16 * h + l"
    by (simp only: mod_less)
  have "toLowerCase cs = hexString bs" using "3.IH" h l bs by simp
  with hl u b show ?case
    by (simp add: toLowerCase_def hexString_def byteToHex_def)
qed

lemma hexToBytes_lower:
  assumes "hexToBytes s = Some b"
  shows "toLowerCase s = bytesToHex b"
proof -
  from assms have p: "take 2 s = ''0x''" and q: "parseHex (drop 2 s) = Some b"
    by (auto simp: hexToBytes_def split: if_splits)
  have "s = take 2 s @ drop 2 s" by simp
  then have "toLowerCase s = toLowerCase (take 2 s) @ toLowerCase (drop 2 s)"
    by (metis map_append toLowerCase_def)
  with p parseHex_lower[OF q] show ?thesis
    by (simp add: bytesToHex_def toLowerCase_def lower_def)
qed

lemma length_hexString: "length (hexString b) = 2 * length b"
  by (induction b) (simp_all add: hexString_def byteToHex_def)

lemma drop_hexString: "drop (2 * k) (hexString b) = hexString (drop k b)"
proof (induction b arbitrary: k)
  case Nil
  show ?case by (simp add: hexString_def)
next
  case (Cons x xs)
  show ?case
  proof (cases k)
    case 0
    then show ?thesis by simp
  next
    case (Suc j)
    have "hexString (x # xs) = byteToHex x @ hexString xs" by (simp add: hexString_def)
    moreover have "length (byteToHex x) = 2" by (simp add: byteToHex_def)
    ultimately have "drop (2 * Suc j) (hexString (x # xs)) = drop (2 * j) (hexString xs)"
      by simp
    with Cons.IH[of j] Suc show ?thesis by simp
  qed
qed

lemma slice_last_word:
  assumes "length w = 32"
  shows "slice_last 40 (bytesToHex w) = hexString (drop 12 w)"
proof -
  have "length (bytesToHex w) = 66" using assms by (simp add: bytesToHex_def length_hexString)
  then have "slice_last 40 (bytesToHex w) = drop 26 (bytesToHex w)" by (simp add: slice_last_def)
  also have "\<dots> = drop (2 * 12) (hexString w)" by (simp add: bytesToHex_def)
  also have "\<dots> = hexString (drop 12 w)" by (rule drop_hexString)
  finally show ?thesis .
qed

lemma hexString_append: "hexString (a @ b) = hexString a @ hexString b"
  by (simp add: hexString_def)

lemma byteToHex_of_nat:
  "byteToHex (of_nat n) = [hexDigit (n div 16 mod 16), hexDigit (n mod 16)]"
proof -
  have u: "unat (of_nat n :: byte) = n mod 256" by (simp add: unat_of_nat)
  have "n mod 256 div 16 = n div 16 mod 16"
    by (simp add: mod_mult2_eq[of n 16 16, simplified])
  moreover have "n mod 256 mod 16 = n mod 16"
    by (simp add: mod_mod_cancel)
  ultimately show ?thesis by (simp add: byteToHex_def u)
qed

lemma hexString_be_bytes: "hexString (be_bytes k n) = hex_digits (2 * k) n"
proof (induction k arbitrary: n)
  case 0
  show ?case by (simp add: hexString_def)
next
  case (Suc k)
  have "n div 16 div 16 = n div 256" by (simp add: div_mult2_eq[symmetric])
  with Suc[of "n div 256"] show ?case
    by (simp add: hexString_append byteToHex_of_nat) (simp add: hexString_def byteToHex_of_nat)
qed

lemma padStart_snoc:
  "padStart (Suc k) c (xs @ [d]) = padStart k c xs @ [d]"
  by (simp add: padStart_def)

lemma hex_digits_zero: "hex_digits k 0 = replicate k CHR ''0''"
  by (induction k) (simp_all add: hexDigit_def replicate_append_same)

lemma padStart_toString16:
  "n < 16 ^ k \<Longrightarrow> 0 < k \<Longrightarrow> padStart k CHR ''0'' (toString16 n) = hex_digits k n"
proof (induction k arbitrary: n)
  case 0
  then show ?case by simp
next
  case (Suc k)
  show ?case
  proof (cases "n < 16")
    case True
    then have "toString16 n = [hexDigit n]" by (simp add: toString16.simps)
    with True show ?thesis
      by (simp add: padStart_def hex_digits_zero)
  next
    case False
    then have t: "toString16 n = toString16 (n div 16) @ [hexDigit (n mod 16)]"
      by (subst toString16.simps) simp
    from False Suc.prems have k: "0 < k" by (cases k) auto
    from Suc.prems have "n div 16 < 16 ^ k"
      by (simp add: less_mult_imp_div_less mult.commute)
    from Suc.IH[OF this k] t show ?thesis
      by (simp add: padStart_snoc)
  qed
qed

lemma pad64: "n < 2 ^ 256 \<Longrightarrow> padStart 64 CHR ''0'' (toString16 n) = hexString (uint256_be n)"
proof -
  assume "n < 2 ^ 256"
  then have "n < (16::nat) ^ 64" by simp
  then have "padStart 64 CHR ''0'' (toString16 n) = hex_digits 64 n"
    by (rule padStart_toString16) simp
  then show ?thesis by (simp add: uint256_be_def hexString_be_bytes)
qed


lemma length_be_bytes: "length (be_bytes k n) = k"
  by (induction k arbitrary: n) simp_all

lemma length_uint256_be: "length (uint256_be n) = 32"
  by (simp add: uint256_be_def length_be_bytes)

lemma buildSetImplementationHash_layout:
  assumes "hexToBytes (proxyAddress c) = Some pa" and "length pa = 20"
    and "hexToBytes (currentImplementation c) = Some cu" and "length cu = 20"
    and "hexToBytes (newImplementation c) = Some ne" and "length ne = 20"
    and "hexToBytes (validator c) = Some va" and "length va = 20"
    and "hexToBytes (callData c) = Some cd"
    and "0 \<le> chainId c" and "chainId c < 2 ^ 256"
    and "0 \<le> nonce c" and "nonce c < 2 ^ 256"
    and "length (K (ascii IMPLEMENTATION_SET_TYPEHASH)) = 32"
  shows "buildSetImplementationHash K c =
     Inr (bytesToHex (K (
        K (ascii IMPLEMENTATION_SET_TYPEHASH) @
        uint256_be (nat (chainId c)) @
        (replicate 12 0 @ pa) @
        uint256_be (nat (nonce c)) @
        (replicate 12 0 @ cu) @
        (replicate 12 0 @ ne) @
        uint256_be 256 @
        (replicate 12 0 @ va) @
        uint256_be (length cd) @ cd @ replicate ((32 - length cd mod 32) mod 32) 0)))"
  using assms
  by (simp add: buildSetImplementationHash_def commitmentFields_def encodeAbiParameters_def
      prepareBytes_def encodeParams_def staticSize_def encodeBytes_def keccak256_def
      hexToBytes_bytesToHex length_uint256_be Let_def)

lemma type_descriptor:
  "IMPLEMENTATION_SET_TYPEHASH = typeDescriptor ''EIP7702ProxyImplementationSet'' (commitmentFields c)"
  by (simp add: IMPLEMENTATION_SET_TYPEHASH_def typeDescriptor_def commitmentFields_def)

lemma hex_proxy: "hexToBytes ''0x261D8c5e9742e6f7f1076Fa1F560894524e19cad'' =
  Some [0x26, 0x1D, 0x8c, 0x5e, 0x97, 0x42, 0xe6, 0xf7, 0xf1, 0x07, 0x6F, 0xa1, 0xF5, 0x60, 0x89, 0x45, 0x24, 0xe1, 0x9c, 0xad]"
  by (simp add: hexToBytes_def digitVal_def)

lemma hex_foreign: "hexToBytes ''0xbaaab2feecd974717816fa5ac540d96ad12eb342'' =
  Some [0xba, 0xaa, 0xb2, 0xfe, 0xec, 0xd9, 0x74, 0x71, 0x78, 0x16, 0xfa, 0x5a, 0xc5, 0x40, 0xd9, 0x6a, 0xd1, 0x2e, 0xb3, 0x42]"
  by (simp add: hexToBytes_def digitVal_def)

lemma hex_new: "hexToBytes ''0x3e0BecB45eBf7Bd1e3943b9521264Bc5B0bd8Ca9'' =
  Some [0x3e, 0x0B, 0xec, 0xB4, 0x5e, 0xBf, 0x7B, 0xd1, 0xe3, 0x94, 0x3b, 0x95, 0x21, 0x26, 0x4B, 0xc5, 0xB0, 0xbd, 0x8C, 0xa9]"
  by (simp add: hexToBytes_def digitVal_def)

lemma hex_validator: "hexToBytes ''0xA96fc9fA032e5f58E225D979f985D51BCb671eF8'' =
  Some [0xA9, 0x6f, 0xc9, 0xfA, 0x03, 0x2e, 0x5f, 0x58, 0xE2, 0x25, 0xD9, 0x79, 0xf9, 0x85, 0xD5, 0x1B, 0xCb, 0x67, 0x1e, 0xF8]"
  by (simp add: hexToBytes_def digitVal_def)

lemma hex_empty: "hexToBytes ''0x'' = Some []"
  by (simp add: hexToBytes_def)

lemma a_commitment_hash:
  "\<exists>h. buildSetImplementationHash a_hash a_commitment = Inr h"
proof -
  have "length (a_hash (ascii IMPLEMENTATION_SET_TYPEHASH)) = 32"
    by (simp add: a_hash_def)
  from buildSetImplementationHash_layout[of a_commitment _ _ _ _ _ a_hash, OF _ _ _ _ _ _ _ _ _ _ _ _ _ this]
  show ?thesis
    by (simp add: a_commitment_def hex_proxy hex_foreign hex_new hex_validator hex_empty)
qed


subsection \<open>Runs\<close>

lemma all_runs_run: "all_runs P p \<longleftrightarrow> (\<forall>rs. P (fst (run p rs)) (snd (run p rs)))"
proof (induction p arbitrary: P)
  case (Return a)
  show ?case by simp
next
  case (Throw e)
  show ?case by simp
next
  case (Act u p)
  show ?case by (simp add: Act.IH split_beta)
next
  case (Await c k)
  show ?case
  proof
    assume a: "all_runs P (Await c k)"
    show "\<forall>rs. P (fst (run (Await c k) rs)) (snd (run (Await c k) rs))"
    proof
      fix rs
      show "P (fst (run (Await c k) rs)) (snd (run (Await c k) rs))"
      proof (cases rs)
        case Nil
        with a show ?thesis by simp
      next
        case (Cons r rs')
        from a have "all_runs (\<lambda>t. P (Awaited c (Some r) # t)) (k r)" by simp
        then have "P (Awaited c (Some r) # fst (run (k r) rs')) (snd (run (k r) rs'))"
          using Await.IH[of "k r" "\<lambda>t. P (Awaited c (Some r) # t)"] by blast
        with Cons show ?thesis by (simp add: split_beta)
      qed
    qed
  next
    assume b: "\<forall>rs. P (fst (run (Await c k) rs)) (snd (run (Await c k) rs))"
    have 1: "P [Awaited c None] Pending"
      using b[rule_format, of "[]"] by simp
    have 2: "all_runs (\<lambda>t. P (Awaited c (Some r) # t)) (k r)" for r
    proof -
      have "\<forall>rs'. P (Awaited c (Some r) # fst (run (k r) rs')) (snd (run (k r) rs'))"
      proof
        fix rs'
        show "P (Awaited c (Some r) # fst (run (k r) rs')) (snd (run (k r) rs'))"
          using b[rule_format, of "r # rs'"] by (simp add: split_beta)
      qed
      then show ?thesis
        using Await.IH[of "k r" "\<lambda>t. P (Awaited c (Some r) # t)"] by blast
    qed
    from 1 2 show "all_runs P (Await c k)" by simp
  qed
qed

lemma calls_simps [simp]:
  "calls [] = []"
  "calls (Did u # t) = calls t"
  "calls (Awaited c r # t) = c # calls t"
  by (simp_all add: calls_def)

lemmas pv_defs = handleRecover_def repairDelegate_def repairImplementation_def checkState_def
  await_def await_void_def await_reply_def await_hex_or_undefined_def await_code_and_slot_def
  await_bigint_def await_hex_def await_account_def attempt_def updating_def no_update_def

subsection \<open>Order of the repairs\<close>

lemma both_repairs_in_order:
  assumes "isDelegateDisrupted p" and "isImplementationDisrupted p"
  shows "all_runs (\<lambda>t out. prefix (milestones t)
           (delegate_repair_order @ implementation_repair_order 2)) (handleRecover im p)"
  using assms
  by (simp add: pv_defs milestones_def delegate_repair_order_def implementation_repair_order_def
      posted_operation_def NONCE_TRACKER_ADDRESS_def
      split: settled.splits pv_reply.splits sum.splits)

text \<open>
  C6. When both the delegate and the implementation are disrupted at the start of a
  recovery attempt, every run goes through the stages in one order: the delegate repair
  is submitted, its transaction is awaited, the state is inspected again and only then
  the delegate step is marked complete; the reads, the signature and the submission of
  the implementation repair come after all of that, followed by their own confirmation
  and inspection before the implementation step is marked complete. A run can stop
  anywhere along this order, never leave it.
\<close>

theorem C6_delegate_repair_precedes_implementation_repair:
  assumes "isDelegateDisrupted p" and "isImplementationDisrupted p"
  shows "prefix (milestones (fst (run (handleRecover im p) rs)))
           ([Started SubmitDelegateRepair, Succeeded SubmitDelegateRepair,
             Started Confirm, Succeeded Confirm,
             Started Inspect, Succeeded Inspect,
             Marked 1] @
            [Started ReadImplementationSlot, Succeeded ReadImplementationSlot,
             Started ReadNonce, Succeeded ReadNonce,
             Started ReadOther, Succeeded ReadOther,
             Started MakeAccount, Succeeded MakeAccount,
             Started SignCommitment, Succeeded SignCommitment,
             Started SubmitImplementationRepair, Succeeded SubmitImplementationRepair,
             Started Confirm, Succeeded Confirm,
             Started Inspect, Succeeded Inspect,
             Marked 2])"
proof -
  have "all_runs (\<lambda>t out. prefix (milestones t)
           (delegate_repair_order @ implementation_repair_order 2)) (handleRecover im p)"
    by (rule both_repairs_in_order[OF assms])
  then have "prefix (milestones (fst (run (handleRecover im p) rs)))
           (delegate_repair_order @ implementation_repair_order 2)"
    by (simp add: all_runs_run)
  then show ?thesis
    by (simp add: delegate_repair_order_def implementation_repair_order_def)
qed

theorem C6_order_witness:
  "isDelegateDisrupted both_disrupted \<and> isImplementationDisrupted both_disrupted
   \<and> milestones (fst (run (handleRecover some_imports both_disrupted) delegate_repaired))
       = delegate_repair_order @ [Started ReadImplementationSlot]
   \<and> prefix (delegate_repair_order @ [Started ReadImplementationSlot])
        (delegate_repair_order @ implementation_repair_order 2)"
proof -
  have d: "isDelegateDisrupted both_disrupted" and i: "isImplementationDisrupted both_disrupted"
    by (simp_all add: both_disrupted_def)
  have m: "milestones (fst (run (handleRecover some_imports both_disrupted) delegate_repaired))
       = delegate_repair_order @ [Started ReadImplementationSlot]"
    by (simp add: pv_defs both_disrupted_def delegate_repaired_def relay_accepts_def
        milestones_def delegate_repair_order_def posted_operation_def a_runtime_def
        some_imports_def truthy_string_def)
  from C6_delegate_repair_precedes_implementation_repair[OF d i, of some_imports delegate_repaired]
  show ?thesis
    using d i m by (simp add: delegate_repair_order_def implementation_repair_order_def)
qed

subsection \<open>Inputs of the commitment\<close>

lemma recover_commitments_fresh:
  "all_runs (\<lambda>t out. commitments_fresh im p None None t) (handleRecover im p)"
  by (simp add: pv_defs NONCE_TRACKER_ADDRESS_def truthy_string_def
      split: settled.splits pv_reply.splits sum.splits option.splits)

lemma fresh_signed:
  assumes "commitments_fresh im p s n t" and "SignMessage h \<in> set (calls t)"
  shows "\<exists>k d. createSetImplementationHash (keccak im) (contract_constants im)
             (smartWalletAddress p) (NEW_IMPLEMENTATION_ADDRESS (contract_constants im))
             ''0x'' k (''0x'' @ slice_last 40 d) False
             (if useAnvil p then localAnvil_id im else odysseyTestnet_id im) = Inr h"
  using assms
proof (induction t arbitrary: s n)
  case Nil
  then show ?case by simp
next
  case (Cons e t)
  show ?case
  proof (cases e)
    case (Did a)
    with Cons show ?thesis by simp
  next
    case (Awaited c r)
    show ?thesis
    proof (cases "c = SignMessage h")
      case True
      with Cons.prems(1) Awaited obtain d k where
        "createSetImplementationHash (keccak im) (contract_constants im)
             (smartWalletAddress p) (NEW_IMPLEMENTATION_ADDRESS (contract_constants im))
             ''0x'' k (''0x'' @ slice_last 40 d) False
             (if useAnvil p then localAnvil_id im else odysseyTestnet_id im) = Inr h"
        by (auto split: option.splits simp del: if_split)
      then show ?thesis by blast
    next
      case False
      with Cons.prems(2) Awaited have in_t: "SignMessage h \<in> set (calls t)" by simp
      from Cons.prems(1) Awaited obtain s' n' where "commitments_fresh im p s' n' t"
        by (cases c) (auto split: if_splits)
      with Cons.IH in_t show ?thesis by blast
    qed
  qed
qed

lemma a_commitment_created:
  "createSetImplementationHash a_hash a_contracts
     ''0x261D8c5e9742e6f7f1076Fa1F560894524e19cad''
     (NEW_IMPLEMENTATION_ADDRESS a_contracts) ''0x'' 7
     ''0xbaaab2feecd974717816fa5ac540d96ad12eb342'' False 31337 =
   buildSetImplementationHash a_hash a_commitment"
  by (simp add: createSetImplementationHash_def a_commitment_def a_contracts_def)

lemma slice_example:
  "slice_last 40 ''0x000000000000000000000000baaab2feecd974717816fa5ac540d96ad12eb342''
     = ''baaab2feecd974717816fa5ac540d96ad12eb342''"
  by (simp add: slice_last_def)

lemma reads_done_calls:
  assumes "buildSetImplementationHash a_hash a_commitment = Inr h"
  shows "calls (fst (run (handleRecover some_imports both_disrupted) reads_done)) =
    [Fetch ''/api/relay''
       (JObj [(''operation'', JStr ''resetDelegate''),
              (''targetAddress'', JStr ''0x261D8c5e9742e6f7f1076Fa1F560894524e19cad'')]),
     WaitForTransactionReceipt (JStr ''0xaa''),
     GetCodeAndStorageAt ''0x261D8c5e9742e6f7f1076Fa1F560894524e19cad'' ERC1967_IMPLEMENTATION_SLOT,
     GetStorageAt ''0x261D8c5e9742e6f7f1076Fa1F560894524e19cad'' ERC1967_IMPLEMENTATION_SLOT,
     ReadContract NONCE_TRACKER_ADDRESS ''nonces'' [''0x261D8c5e9742e6f7f1076Fa1F560894524e19cad''],
     ReadContract ''0x261D8c5e9742e6f7f1076Fa1F560894524e19cad'' ''nextOwnerIndex'' [],
     ToCoinbaseSmartAccount ''0x261D8c5e9742e6f7f1076Fa1F560894524e19cad'' 0,
     SignMessage h]"
  using assms
  by (simp add: pv_defs both_disrupted_def reads_done_def delegate_repaired_def relay_accepts_def
        a_runtime_def some_imports_def truthy_string_def slice_example a_commitment_created)


text \<open>
  C7. In every run of a recovery attempt, each digest that is handed to the signer is
  the set-implementation hash built with the value that the read of the nonce tracker
  for the account resolved to and with the address cut from what the read of the
  implementation slot resolved to, both reads made in this attempt and after the last
  submission or confirmation that precedes the signature.
\<close>

theorem C7_commitment_built_from_fresh_reads:
  "commitments_fresh im p None None (fst (run (handleRecover im p) rs))"
  using recover_commitments_fresh[of im p] by (simp add: all_runs_run)

theorem C7_fresh_reads_witness:
  "commitments_fresh some_imports both_disrupted None None
     (fst (run (handleRecover some_imports both_disrupted) reads_done))
   \<and> (\<exists>h. last (calls (fst (run (handleRecover some_imports both_disrupted) reads_done)))
            = SignMessage h
          \<and> createSetImplementationHash a_hash a_contracts
              ''0x261D8c5e9742e6f7f1076Fa1F560894524e19cad''
              (NEW_IMPLEMENTATION_ADDRESS a_contracts) ''0x'' 7
              ''0xbaaab2feecd974717816fa5ac540d96ad12eb342'' False 31337 = Inr h)"
proof -
  obtain h where h: "buildSetImplementationHash a_hash a_commitment = Inr h"
    using a_commitment_hash by blast
  from reads_done_calls[OF h] h a_commitment_created
    C7_commitment_built_from_fresh_reads[of some_imports both_disrupted reads_done]
  show ?thesis by simp
qed

text \<open>
  C1. The type descriptor of the commitment is the struct
  \<^verbatim>\<open>EIP7702ProxyImplementationSet\<close> with exactly the members chainId, proxy, nonce,
  currentImplementation, newImplementation, callData and validator, in this order. The
  hash of a well-formed commitment is the hash of the hash of that descriptor followed
  by the seven fields in the same order (the dynamic callData through its offset, with
  its bytes at the end), and every digest signed during an implementation repair is the
  hash of such a commitment.
\<close>

theorem C1_commitment_binds_seven_fields_in_order:
  assumes "hexToBytes (proxyAddress c) = Some pa" and "length pa = 20"
    and "hexToBytes (currentImplementation c) = Some cu" and "length cu = 20"
    and "hexToBytes (newImplementation c) = Some ne" and "length ne = 20"
    and "hexToBytes (validator c) = Some va" and "length va = 20"
    and "hexToBytes (callData c) = Some cd"
    and "0 \<le> chainId c" and "chainId c < 2 ^ 256"
    and "0 \<le> nonce c" and "nonce c < 2 ^ 256"
    and "length (K (ascii IMPLEMENTATION_SET_TYPEHASH)) = 32"
  shows "IMPLEMENTATION_SET_TYPEHASH =
           typeDescriptor ''EIP7702ProxyImplementationSet'' (commitmentFields c)
    \<and> map fst (commitmentFields c) =
           [''chainId'', ''proxy'', ''nonce'', ''currentImplementation'', ''newImplementation'',
            ''callData'', ''validator'']
    \<and> buildSetImplementationHash K c =
         Inr (bytesToHex (K (
            K (ascii IMPLEMENTATION_SET_TYPEHASH) @
            uint256_be (nat (chainId c)) @
            (replicate 12 0 @ pa) @
            uint256_be (nat (nonce c)) @
            (replicate 12 0 @ cu) @
            (replicate 12 0 @ ne) @
            uint256_be 256 @
            (replicate 12 0 @ va) @
            uint256_be (length cd) @ cd @ replicate ((32 - length cd mod 32) mod 32) 0)))
    \<and> (\<forall>h. SignMessage h \<in> set (calls (fst (run (handleRecover im p) rs))) \<longrightarrow>
          (\<exists>k d. buildSetImplementationHash (keccak im)
                    \<lparr>chainId = (if useAnvil p then localAnvil_id im else odysseyTestnet_id im),
                     proxyAddress = smartWalletAddress p,
                     nonce = k,
                     currentImplementation = ''0x'' @ slice_last 40 d,
                     newImplementation = NEW_IMPLEMENTATION_ADDRESS (contract_constants im),
                     callData = ''0x'',
                     validator = VALIDATOR_ADDRESS (contract_constants im)\<rparr> = Inr h))"
proof -
  have signed: "\<exists>k d. buildSetImplementationHash (keccak im)
                    \<lparr>chainId = (if useAnvil p then localAnvil_id im else odysseyTestnet_id im),
                     proxyAddress = smartWalletAddress p,
                     nonce = k,
                     currentImplementation = ''0x'' @ slice_last 40 d,
                     newImplementation = NEW_IMPLEMENTATION_ADDRESS (contract_constants im),
                     callData = ''0x'',
                     validator = VALIDATOR_ADDRESS (contract_constants im)\<rparr> = Inr h"
    if "SignMessage h \<in> set (calls (fst (run (handleRecover im p) rs)))" for h
  proof -
    have "commitments_fresh im p None None (fst (run (handleRecover im p) rs))"
      using recover_commitments_fresh[of im p] by (simp add: all_runs_run)
    from fresh_signed[OF this that] show ?thesis
      by (simp add: createSetImplementationHash_def)
  qed
  have names: "map fst (commitmentFields c) =
           [''chainId'', ''proxy'', ''nonce'', ''currentImplementation'', ''newImplementation'',
            ''callData'', ''validator'']"
    by (simp add: commitmentFields_def)
  have layout: "buildSetImplementationHash K c =
         Inr (bytesToHex (K (
            K (ascii IMPLEMENTATION_SET_TYPEHASH) @
            uint256_be (nat (chainId c)) @
            (replicate 12 0 @ pa) @
            uint256_be (nat (nonce c)) @
            (replicate 12 0 @ cu) @
            (replicate 12 0 @ ne) @
            uint256_be 256 @
            (replicate 12 0 @ va) @
            uint256_be (length cd) @ cd @ replicate ((32 - length cd mod 32) mod 32) 0)))"
    using assms by (rule buildSetImplementationHash_layout)
  from type_descriptor[of c] names layout signed
  show ?thesis by blast
qed

theorem C1_commitment_witness:
  "hexToBytes (proxyAddress a_commitment) =
     Some [0x26, 0x1D, 0x8c, 0x5e, 0x97, 0x42, 0xe6, 0xf7, 0xf1, 0x07,
           0x6F, 0xa1, 0xF5, 0x60, 0x89, 0x45, 0x24, 0xe1, 0x9c, 0xad]
   \<and> hexToBytes (callData a_commitment) = Some []
   \<and> length (a_hash (ascii IMPLEMENTATION_SET_TYPEHASH)) = 32
   \<and> buildSetImplementationHash a_hash a_commitment =
       Inr (bytesToHex (a_hash (
          a_hash (ascii IMPLEMENTATION_SET_TYPEHASH) @
          uint256_be 31337 @
          (replicate 12 0 @ [0x26, 0x1D, 0x8c, 0x5e, 0x97, 0x42, 0xe6, 0xf7, 0xf1, 0x07,
                             0x6F, 0xa1, 0xF5, 0x60, 0x89, 0x45, 0x24, 0xe1, 0x9c, 0xad]) @
          uint256_be 7 @
          (replicate 12 0 @ [0xba, 0xaa, 0xb2, 0xfe, 0xec, 0xd9, 0x74, 0x71, 0x78, 0x16,
                             0xfa, 0x5a, 0xc5, 0x40, 0xd9, 0x6a, 0xd1, 0x2e, 0xb3, 0x42]) @
          (replicate 12 0 @ [0x3e, 0x0B, 0xec, 0xB4, 0x5e, 0xBf, 0x7B, 0xd1, 0xe3, 0x94,
                             0x3b, 0x95, 0x21, 0x26, 0x4B, 0xc5, 0xB0, 0xbd, 0x8C, 0xa9]) @
          uint256_be 256 @
          (replicate 12 0 @ [0xA9, 0x6f, 0xc9, 0xfA, 0x03, 0x2e, 0x5f, 0x58, 0xE2, 0x25,
                             0xD9, 0x79, 0xf9, 0x85, 0xD5, 0x1B, 0xCb, 0x67, 0x1e, 0xF8]) @
          uint256_be 0)))"
proof -
  have k: "length (a_hash (ascii IMPLEMENTATION_SET_TYPEHASH)) = 32"
    by (simp add: a_hash_def)
  from C1_commitment_binds_seven_fields_in_order
         [where c = a_commitment and K = a_hash and im = some_imports and p = both_disrupted
            and rs = reads_done, OF _ _ _ _ _ _ _ _ _ _ _ _ _ k]
  show ?thesis
    using k by (simp add: a_commitment_def hex_proxy hex_foreign hex_new hex_validator hex_empty)
qed

subsection \<open>The step log\<close>

lemma all_runs_True [simp]: "all_runs (\<lambda>t out. True) p"
  by (induction p) simp_all









lemmas verify_defs = handleVerify_def fundAccount_def prefundDeposit_def signUserOp_def
  submitUserOp_def retrieveDeposit_def setting_error_def setting_status_def





subsection \<open>The initialization hash and its signature\<close>

lemma encodeAbiParameters_hex:
  "encodeAbiParameters ts vs = Inr h \<Longrightarrow> \<exists>b. h = bytesToHex b"
  by (auto simp: encodeAbiParameters_def split: if_splits sum.splits)

lemma drop2_bytesToHex: "drop 2 (bytesToHex b) = hexString b"
  by (simp add: bytesToHex_def)

lemma initialize_encoding:
  assumes "hexToBytes proxyAddr = Some p" and "length p = 20"
    and "hexToBytes initArgs = Some a"
  shows "encodeAbiParameters [T_address, T_bytes] [Hex proxyAddr, Hex initArgs] =
    Inr (bytesToHex (replicate 12 0 @ p @ uint256_be 64 @ uint256_be (length a) @ a
           @ replicate ((32 - length a mod 32) mod 32) 0))"
  using assms
  by (simp add: encodeAbiParameters_def prepareBytes_def encodeParams_def
      staticSize_def encodeBytes_def)

text \<open>
  C2. For a proxy address of 20 bytes and initialization arguments of any length, both
  builders of the initialization hash return the hash of the ABI encoding of the pair
  (address, bytes): the address padded to a word, the offset 64 of the dynamic part,
  then the length of the arguments, the arguments and zero padding to a whole word.
  Nothing else, hence no nonce, is in the hashed bytes.
\<close>

theorem C2_initialization_hash_of_address_and_bytes:
  assumes "hexToBytes proxyAddr = Some p" and "length p = 20"
    and "hexToBytes initArgs = Some a"
  shows "createInitializeHash K proxyAddr initArgs =
           Inr (bytesToHex (K (replicate 12 0 @ p @ uint256_be 64 @ uint256_be (length a) @ a
                  @ replicate ((32 - length a mod 32) mod 32) 0)))
       \<and> script_createInitializeHash K proxyAddr initArgs =
           Inr (bytesToHex (K (replicate 12 0 @ p @ uint256_be 64 @ uint256_be (length a) @ a
                  @ replicate ((32 - length a mod 32) mod 32) 0)))"
  using initialize_encoding[OF assms]
  by (simp add: createInitializeHash_def script_createInitializeHash_def keccak256_def
      hexToBytes_bytesToHex noble_hexToBytes_def drop2_bytesToHex parseHex_hexString)
    (simp add: bytesToHex_def)

theorem C2_initialization_hash_witness:
  "hexToBytes ''0x261D8c5e9742e6f7f1076Fa1F560894524e19cad'' =
     Some [0x26, 0x1D, 0x8c, 0x5e, 0x97, 0x42, 0xe6, 0xf7, 0xf1, 0x07,
           0x6F, 0xa1, 0xF5, 0x60, 0x89, 0x45, 0x24, 0xe1, 0x9c, 0xad]
   \<and> hexToBytes ''0x010203'' = Some [1, 2, 3]
   \<and> createInitializeHash a_hash ''0x261D8c5e9742e6f7f1076Fa1F560894524e19cad'' ''0x010203'' =
       Inr (bytesToHex (a_hash (replicate 12 0 @
              [0x26, 0x1D, 0x8c, 0x5e, 0x97, 0x42, 0xe6, 0xf7, 0xf1, 0x07,
               0x6F, 0xa1, 0xF5, 0x60, 0x89, 0x45, 0x24, 0xe1, 0x9c, 0xad]
              @ uint256_be 64 @ uint256_be (length [1, 2, 3 :: byte]) @ [1, 2, 3]
              @ replicate 29 0)))"
proof -
  have a: "hexToBytes ''0x010203'' = Some [1, 2, 3]"
    by (simp add: hexToBytes_def digitVal_def)
  from C2_initialization_hash_of_address_and_bytes[OF hex_proxy _ a, of a_hash] hex_proxy a
  show ?thesis by simp
qed

text \<open>
  C3. The two builders of the initialization hash return the same result on every pair
  of strings, the same digest or the same error, and so do the two encoders of the
  initialization arguments on every owner address.
\<close>

theorem C3_the_two_implementations_agree:
  "script_createInitializeHash K proxyAddr initArgs = createInitializeHash K proxyAddr initArgs
   \<and> script_encodeInitializeArgs ownerAddress = encodeInitializeArgs ownerAddress"
proof
  show "script_createInitializeHash K proxyAddr initArgs = createInitializeHash K proxyAddr initArgs"
  proof (cases "encodeAbiParameters [T_address, T_bytes] [Hex proxyAddr, Hex initArgs]")
    case (Inl e)
    then show ?thesis
      by (simp add: script_createInitializeHash_def createInitializeHash_def)
  next
    case (Inr h)
    then obtain b where "h = bytesToHex b"
      using encodeAbiParameters_hex by blast
    with Inr show ?thesis
      by (simp add: script_createInitializeHash_def createInitializeHash_def keccak256_def
          hexToBytes_bytesToHex noble_hexToBytes_def parseHex_hexString drop2_bytesToHex)
        (simp add: bytesToHex_def)
  qed
  show "script_encodeInitializeArgs ownerAddress = encodeInitializeArgs ownerAddress"
    by (simp add: script_encodeInitializeArgs_def encodeInitializeArgs_def split: sum.splits)
qed

lemma script_signs_the_digest:
  assumes "parseHex (drop 2 key) = Some kb" and "sign d kb = Inr sg"
    and "sig_r sg < 2 ^ 256" and "sig_s sg < 2 ^ 256" and "recovery sg \<le> 1"
  shows "script_signInitialization sign (Some key) (bytesToHex d) =
     Inr (bytesToHex (uint256_be (sig_r sg) @ uint256_be (sig_s sg) @ [of_nat (27 + recovery sg)]))"
proof -
  have b: "toString16 27 = ''1b''" and c: "toString16 28 = ''1c''"
    by (simp_all add: toString16.simps hexDigit_def)
  from assms(5) consider "recovery sg = 0" | "recovery sg = 1" by arith
  then have v: "toString16 (recovery sg + 27) = byteToHex (of_nat (27 + recovery sg))"
  proof cases
    case 1
    with b show ?thesis by (simp add: byteToHex_def hexDigit_def)
  next
    case 2
    with c show ?thesis by (simp add: byteToHex_def hexDigit_def)
  qed
  show ?thesis
    using assms(1,2) pad64[OF assms(3)] pad64[OF assms(4)] v
    by (simp add: script_signInitialization_def noble_hexToBytes_def drop2_bytesToHex
        parseHex_hexString Let_def)
      (simp add: bytesToHex_def hexString_def)
qed

text \<open>
  C4 fails on \<^verbatim>\<open>signInitialization\<close> of \<^verbatim>\<open>lib/wallet-utils.ts\<close>. For the digest of 32
  zero bytes, what is handed to the signer is not the digest but the hash of the
  EIP-191 text: the byte 0x19, "Ethereum Signed Message:", a line feed, the length 66
  and the 66 characters of the hex string. The function of
  \<^verbatim>\<open>scripts/upgrade-wallet.ts\<close> hands the digest itself to the signer.
\<close>

theorem C4_wallet_utils_signs_the_prefixed_text:
  "signInitialization K sign key (bytesToHex (replicate 32 0)) =
     (case hexToBytes key of
        None \<Rightarrow> Inl ''InvalidHexValueError''
      | Some kb \<Rightarrow>
          (case sign (K (ascii ([CHR 0x19] @ ''Ethereum Signed Message:'' @ [CHR 0x0A] @ ''66'')
                         @ ascii (bytesToHex (replicate 32 0)))) kb of
             Inl e \<Rightarrow> Inl e
           | Inr sg \<Rightarrow> Inr (serializeSignature sg)))
   \<and> script_signInitialization sign (Some key) (bytesToHex (replicate 32 0)) =
     (case noble_hexToBytes (drop 2 key) of
        Inl e \<Rightarrow> Inl e
      | Inr kb \<Rightarrow>
          (case sign (replicate 32 0) kb of
             Inl e \<Rightarrow> Inl e
           | Inr sg \<Rightarrow>
               Inr (''0x'' @ padStart 64 CHR ''0'' (toString16 (sig_r sg))
                         @ padStart 64 CHR ''0'' (toString16 (sig_s sg))
                         @ toString16 (recovery sg + 27))))"
proof -
  have l: "length (bytesToHex (replicate 32 0)) = 66"
    by (simp add: bytesToHex_def length_hexString)
  have t: "toString10 66 = ''66''"
    by (simp add: toString10.simps hexDigit_def)
  have p: "toPrefixedMessage (bytesToHex (replicate 32 0)) =
      ascii ([CHR 0x19] @ ''Ethereum Signed Message:'' @ [CHR 0x0A] @ ''66'')
        @ ascii (bytesToHex (replicate 32 0))"
    by (simp only: toPrefixedMessage_def l t)
  have one: "signInitialization K sign key (bytesToHex (replicate 32 0)) =
     (case hexToBytes key of
        None \<Rightarrow> Inl ''InvalidHexValueError''
      | Some kb \<Rightarrow>
          (case sign (K (ascii ([CHR 0x19] @ ''Ethereum Signed Message:'' @ [CHR 0x0A] @ ''66'')
                         @ ascii (bytesToHex (replicate 32 0)))) kb of
             Inl e \<Rightarrow> Inl e
           | Inr sg \<Rightarrow> Inr (serializeSignature sg)))"
    by (simp only: signInitialization_def viem_signMessage_def p)
  have two: "script_signInitialization sign (Some key) (bytesToHex (replicate 32 0)) =
     (case noble_hexToBytes (drop 2 key) of
        Inl e \<Rightarrow> Inl e
      | Inr kb \<Rightarrow>
          (case sign (replicate 32 0) kb of
             Inl e \<Rightarrow> Inl e
           | Inr sg \<Rightarrow>
               Inr (''0x'' @ padStart 64 CHR ''0'' (toString16 (sig_r sg))
                         @ padStart 64 CHR ''0'' (toString16 (sig_s sg))
                         @ toString16 (recovery sg + 27))))"
    by (simp add: script_signInitialization_def drop2_bytesToHex noble_hexToBytes_def
        parseHex_hexString Let_def split: sum.splits option.splits)
  from one two show ?thesis by (rule conjI)
qed

subsection \<open>State inspection\<close>

lemma checkState_reports:
  "checkState p = await_code_and_slot
       (GetCodeAndStorageAt (smartWalletAddress p) ERC1967_IMPLEMENTATION_SLOT)
       (\<lambda>code slotValue.
          Act (OnStateChange (reported_code code) (reported_implementation slotValue)) (Return ()))"
  by (simp add: checkState_def reported_code_def reported_implementation_def)

text \<open>
  C8. For a slot word of 32 bytes, the implementation is classed as correct exactly
  when the low 20 bytes of the word are the bytes of the expected implementation
  address. For deployed code, the delegation is classed as correct exactly when the
  code is the three bytes ef 01 00 followed by the bytes of the expected delegate
  address; empty code, reported as "0x" or not reported at all, and every other code
  are classed as an issue.
\<close>

theorem C8_state_is_classified_by_slot_and_bytecode:
  assumes "hexToBytes (NEW_IMPLEMENTATION_ADDRESS cs) = Some impl"
    and "hexToBytes expectedDelegate = Some dlg"
    and "length w = 32"
  shows "slot_class cs (Some (reported_implementation (Some (bytesToHex w))))
           = (if drop 12 w = impl then Green else Red)
       \<and> bytecode_class expectedDelegate (Some (reported_code (Some (bytesToHex c))))
           = (if c = [0xef, 0x01, 0x00] @ dlg then Green else Red)
       \<and> bytecode_class expectedDelegate (Some (reported_code None)) = Red"
proof -
  have r: "reported_implementation (Some (bytesToHex w)) = bytesToHex (drop 12 w)"
    using slice_last_word[OF assms(3)]
    by (simp add: reported_implementation_def truthy_string_def bytesToHex_def)
  have one: "slot_class cs (Some (reported_implementation (Some (bytesToHex w))))
           = (if drop 12 w = impl then Green else Red)"
    using hexToBytes_lower[OF assms(1)]
    by (simp add: r slot_class_def truthy_string_def toLowerCase_bytesToHex bytesToHex_inject)
      (simp add: bytesToHex_def)
  from assms(2) have q: "parseHex (drop 2 expectedDelegate) = Some dlg"
    by (auto simp: hexToBytes_def split: if_splits)
  have e: "toLowerCase (getExpectedBytecode expectedDelegate) = bytesToHex ([0xef, 0x01, 0x00] @ dlg)"
    using parseHex_lower[OF q]
    by (simp add: getExpectedBytecode_def MAGIC_PREFIX_def toLowerCase_def lower_def
        bytesToHex_def hexString_def byteToHex_def hexDigit_def)
  have c: "reported_code (Some (bytesToHex c)) = bytesToHex c"
    by (simp add: reported_code_def truthy_string_def bytesToHex_def)
  have two: "bytecode_class expectedDelegate (Some (reported_code (Some (bytesToHex c))))
           = (if c = [0xef, 0x01, 0x00] @ dlg then Green else Red)"
    by (simp add: c bytecode_class_def isCorrectBytecode_def e toLowerCase_bytesToHex
        bytesToHex_inject truthy_string_def)
      (auto simp add: bytesToHex_def hexString_def byteToHex_def)
  have three: "bytecode_class expectedDelegate (Some (reported_code None)) = Red"
    by (simp add: reported_code_def bytecode_class_def truthy_string_def)
  from one two three show ?thesis by simp
qed

lemma hex_template: "hexToBytes EIP7702PROXY_TEMPLATE_ADDRESS =
  Some [0xcA, 0x27, 0x1A, 0x94, 0xdd, 0x66, 0x98, 0x21, 0x80, 0x96,
        0x0B, 0x57, 0x9d, 0xe6, 0xB3, 0x21, 0x30, 0x84, 0xD6, 0x7A]"
  by (simp add: EIP7702PROXY_TEMPLATE_ADDRESS_def hexToBytes_def digitVal_def)

theorem C8_classification_witness:
  "length a_slot_word = 32
   \<and> slot_class a_contracts (Some (reported_implementation (Some (bytesToHex a_slot_word)))) = Green
   \<and> bytecode_class EIP7702PROXY_TEMPLATE_ADDRESS
        (Some (reported_code (Some (bytesToHex a_delegation)))) = Green
   \<and> bytecode_class EIP7702PROXY_TEMPLATE_ADDRESS (Some (reported_code (Some (bytesToHex [])))) = Red
   \<and> bytecode_class EIP7702PROXY_TEMPLATE_ADDRESS (Some (reported_code None)) = Red"
proof -
  have i: "hexToBytes (NEW_IMPLEMENTATION_ADDRESS a_contracts) =
    Some [0x3e, 0x0B, 0xec, 0xB4, 0x5e, 0xBf, 0x7B, 0xd1, 0xe3, 0x94,
          0x3b, 0x95, 0x21, 0x26, 0x4B, 0xc5, 0xB0, 0xbd, 0x8C, 0xa9]"
    using hex_new by (simp add: a_contracts_def)
  have w: "length a_slot_word = 32" by (simp add: a_slot_word_def)
  from C8_state_is_classified_by_slot_and_bytecode[OF i hex_template w, of a_delegation]
       C8_state_is_classified_by_slot_and_bytecode[OF i hex_template w, of "[]"] w
  show ?thesis by (simp add: a_slot_word_def a_delegation_def)
qed

end
